theory Spec2Isabelle
  imports Complex_Main "HOL-Library.AList" "HOL-Library.Sublist"
begin

section \<open>Data model (app/models)\<close>

text \<open>
  Python values that the models carry. A \<open>datetime\<close> is a naive timestamp, kept as the
  number of microseconds since \<open>datetime.min\<close>. A numeric attribute is either an
  \<open>int\<close> or a \<open>float\<close> object (\<open>Place.is_valid\<close> tells them apart with
  \<open>isinstance\<close>); a finite float is represented by the real number it denotes.
  Strings are lists of characters, \<open>len\<close> is \<open>length\<close>.
\<close>

type_synonym datetime = nat

datatype number = PyInt int | PyFloat real

fun num_val :: "number \<Rightarrow> real" where
  "num_val (PyInt i) = real_of_int i"
| "num_val (PyFloat r) = r"

fun is_float :: "number \<Rightarrow> bool" where
  "is_float (PyInt i) = False"
| "is_float (PyFloat r) = True"

text \<open>
  \<open>BaseModel\<close> (base_model.py) and its four subclasses. The attribute \<open>id\<close> is
  called \<open>obj_id\<close> and \<open>Review.text\<close> is called \<open>review_text\<close>.
\<close>

record base_model =
  obj_id :: string
  created_at :: datetime
  updated_at :: datetime

record user = base_model +
  first_name :: string
  last_name :: string
  email :: string
  password :: string
  is_admin :: bool
  places :: "string list"

record place = base_model +
  title :: string
  description :: string
  price :: number
  latitude :: number
  longitude :: number
  owner_first_name :: string
  owner_id :: string
  reviews :: "string list"
  amenities :: "string list"

record amenity = base_model +
  name :: string

record review = base_model +
  review_text :: string
  rating :: int
  place_id :: string
  place_name :: string
  user_id :: string
  user_first_name :: string

text \<open>
  Every error of the services is a \<open>ValueError\<close> with a message; the kind says which
  of the three families of messages it is. \<open>UnboundLocalError\<close> is what Python raises
  when a local variable is read before any assignment, \<open>KeyError\<close> what a missing
  dictionary key raises, \<open>AttributeError\<close> what a missing attribute or method raises.
\<close>

datatype kind = NotFound | Conflict | Validation

datatype error =
  ValueError kind | TypeError | UnboundLocalError | KeyError string | AttributeError

subsection \<open>BaseModel.save and BaseModel.update\<close>

text \<open>
  \<open>save(repo_type=None)\<close> stamps \<open>updated_at\<close> with the clock (\<open>created_at\<close> is
  never \<open>None\<close> here). \<open>update(data)\<close> assigns the attributes named in \<open>data\<close>
  and saves; \<open>assign\<close> is the effect of those assignments on the object.
\<close>

definition save :: "datetime \<Rightarrow> 'a base_model_scheme \<Rightarrow> 'a base_model_scheme" where
  "save now obj = obj\<lparr>updated_at := now\<rparr>"

definition base_update ::
  "('a base_model_scheme \<Rightarrow> 'a base_model_scheme) \<Rightarrow> datetime \<Rightarrow>
   'a base_model_scheme \<Rightarrow> 'a base_model_scheme" where
  "base_update assign now obj = save now (assign obj)"

subsection \<open>Place.is_valid and Amenity.is_valid\<close>

text \<open>
  Each check raises in the source order; \<open>TypeError\<close> is caught and raised again as
  \<open>ValueError\<close>. The four string attributes are strings by their type here, so the
  first \<open>isinstance\<close> test cannot fail.
\<close>

definition place_is_valid :: "place \<Rightarrow> error + bool" where
  "place_is_valid p =
     (if num_val (price p) < 0 then Inl (ValueError Validation)
      else if \<not> (0 < length (title p) \<and> length (title p) < 100) then Inl (ValueError Validation)
      else if \<not> (0 < length (description p) \<and> length (description p) < 500)
        then Inl (ValueError Validation)
      else if \<not> (0 < length (owner_first_name p) \<and> length (owner_first_name p) < 100)
        then Inl (ValueError Validation)
      else if \<not> (0 < length (owner_id p) \<and> length (owner_id p) < 100)
        then Inl (ValueError Validation)
      else if \<not> (is_float (price p) \<and> is_float (latitude p) \<and> is_float (longitude p))
        then Inl (ValueError Validation)
      else if num_val (latitude p) > 90 \<or> num_val (latitude p) < - 90
        then Inl (ValueError Validation)
      else if num_val (longitude p) > 180 \<or> num_val (latitude p) < - 180
        then Inl (ValueError Validation)
      else Inr True)"

text \<open>
  \<open>str.strip()\<close> drops the white space at both ends: the characters for which
  \<open>str.isspace\<close> holds, among the 8-bit characters.
\<close>

definition isspace :: "char \<Rightarrow> bool" where
  "isspace c = (of_char c \<in> {9, 10, 11, 12, 13, 28, 29, 30, 31, 32, 133, 160 :: nat})"

definition strip :: "string \<Rightarrow> string" where
  "strip s = rev (dropWhile isspace (rev (dropWhile isspace s)))"

definition amenity_is_valid :: "amenity \<Rightarrow> error + bool" where
  "amenity_is_valid a =
     (let stripped_name = strip (name a)
      in if \<not> (0 < length stripped_name \<and> length stripped_name < 50)
         then Inl (ValueError Validation)
         else Inr True)"

section \<open>Repository (app/persistence/repository.py)\<close>

text \<open>
  \<open>InMemoryRepository._storage\<close> is a Python dictionary from ids to objects: an
  association list in insertion order. Assigning to a key keeps its position or appends,
  as \<open>AList.update\<close> does. The objects are held by reference, so a change made to an
  object obtained with \<open>get\<close> is a change of the stored entry
  (\<open>AList.map_entry\<close>). \<open>InFileRepository\<close> holds the same dictionary and writes
  it out after each change; the table of \<open>SQLAlchemyRepository\<close> is read and
  written through the same six operations.
\<close>

type_synonym 'a repository = "(string \<times> 'a) list"

definition repo_add :: "'a base_model_scheme \<Rightarrow> 'a base_model_scheme repository \<Rightarrow>
    'a base_model_scheme repository" where
  "repo_add obj storage = AList.update (obj_id obj) obj storage"

definition repo_get :: "string \<Rightarrow> 'a repository \<Rightarrow> 'a option" where
  "repo_get oid storage = map_of storage oid"

definition repo_get_all :: "'a repository \<Rightarrow> 'a list" where
  "repo_get_all storage = map snd storage"

definition repo_update :: "string \<Rightarrow> ('a \<Rightarrow> 'a) \<Rightarrow> 'a repository \<Rightarrow> 'a repository" where
  "repo_update oid upd storage =
     (case repo_get oid storage of
        None \<Rightarrow> storage
      | Some obj \<Rightarrow> AList.map_entry oid upd storage)"

definition repo_delete :: "string \<Rightarrow> 'a repository \<Rightarrow> 'a repository" where
  "repo_delete oid storage =
     (if oid \<in> fst ` set storage then AList.delete oid storage else storage)"

definition repo_get_by_attribute :: "('a \<Rightarrow> 'b) \<Rightarrow> 'b \<Rightarrow> 'a repository \<Rightarrow> 'a list" where
  "repo_get_by_attribute attr attr_value storage =
     filter (\<lambda>obj. attr obj = attr_value) (map snd storage)"

text \<open>The four repositories that the facades hold.\<close>

record store =
  user_repo :: "user repository"
  place_repo :: "place repository"
  amenity_repo :: "amenity repository"
  review_repo :: "review repository"

section \<open>Entity facades\<close>

text \<open>
  The payload of \<open>PlaceFacade.create_place\<close>: a dictionary read at the keys below;
  \<open>amenities\<close> and \<open>reviews\<close> are read with \<open>dict.get\<close> and may be absent.
\<close>

record place_data =
  d_title :: string
  d_description :: string
  d_price :: number
  d_latitude :: number
  d_longitude :: number
  d_owner_first_name :: string
  d_owner_id :: string
  d_amenities :: "string list option"
  d_reviews :: "string list option"

text \<open>
  \<open>Place(...)\<close>: \<open>BaseModel.__init__\<close> draws the id from \<open>uuid.uuid4()\<close> and both
  timestamps from the clock; \<open>new_id\<close> and \<open>now\<close> are what they return.
\<close>

definition Place_init :: "place_data \<Rightarrow> string \<Rightarrow> datetime \<Rightarrow> place" where
  "Place_init d new_id now =
     \<lparr>obj_id = new_id, created_at = now, updated_at = now,
      title = d_title d, description = d_description d, price = d_price d,
      latitude = d_latitude d, longitude = d_longitude d,
      owner_first_name = d_owner_first_name d, owner_id = d_owner_id d,
      reviews = (case d_reviews d of None \<Rightarrow> [] | Some rs \<Rightarrow> rs),
      amenities = (case d_amenities d of None \<Rightarrow> [] | Some xs \<Rightarrow> xs)\<rparr>"

text \<open>
  \<open>PlaceFacade.create_place\<close>. The result \<open>place.to_dict()\<close> is represented by
  the object it is exported from.
\<close>

definition create_place ::
  "place_data \<Rightarrow> string \<Rightarrow> datetime \<Rightarrow> store \<Rightarrow> (error + place) \<times> store" where
  "create_place d new_id now s =
     (let p = Place_init d new_id now;
          existing_place = repo_get_by_attribute title (title p) (place_repo s)
      in if existing_place \<noteq> [] then (Inl (ValueError Conflict), s)
         else (case place_is_valid p of
                 Inl e \<Rightarrow> (Inl e, s)
               | Inr ok \<Rightarrow>
                   if ok then (Inr p, s\<lparr>place_repo := repo_add p (place_repo s)\<rparr>)
                   else (Inl (ValueError Validation), s)))"

text \<open>
  \<open>AmenityFacade.create_amenity\<close>; the payload is a dictionary read at \<open>"name"\<close>.
\<close>

record amenity_data =
  d_name :: string

definition Amenity_init :: "string \<Rightarrow> string \<Rightarrow> datetime \<Rightarrow> amenity" where
  "Amenity_init nm new_id now =
     \<lparr>obj_id = new_id, created_at = now, updated_at = now, name = nm\<rparr>"

definition create_amenity ::
  "amenity_data \<Rightarrow> string \<Rightarrow> datetime \<Rightarrow> store \<Rightarrow> (error + amenity) \<times> store" where
  "create_amenity d new_id now s =
     (let a = Amenity_init (d_name d) new_id now;
          existing_amenity = repo_get_by_attribute name (name a) (amenity_repo s)
      in if existing_amenity \<noteq> [] then (Inl (ValueError Conflict), s)
         else (case amenity_is_valid a of
                 Inl e \<Rightarrow> (Inl e, s)
               | Inr ok \<Rightarrow>
                   if ok then (Inr a, s\<lparr>amenity_repo := repo_add a (amenity_repo s)\<rparr>)
                   else (Inl (ValueError Validation), s)))"

section \<open>FacadeRelationManager (app/services/facade-relations-manager)\<close>


definition delete_place_from_owner_place_list ::
  "string \<Rightarrow> string \<Rightarrow> datetime \<Rightarrow> store \<Rightarrow> (error + unit) \<times> store" where
  "delete_place_from_owner_place_list pid uid now s =
     (case repo_get uid (user_repo s) of
        None \<Rightarrow> (Inl (ValueError NotFound), s)
      | Some usr \<Rightarrow>
          if pid \<in> set (places usr) then
            let users1 = AList.map_entry uid
                           (\<lambda>u. u\<lparr>places := remove1 pid (places u)\<rparr>) (user_repo s);
                users2 = repo_update uid (base_update id now) users1;
                s1 = s\<lparr>user_repo := users2\<rparr>
            in (Inr (), s1\<lparr>place_repo := repo_delete pid (place_repo s1)\<rparr>)
          else (Inl (ValueError NotFound), s))"

definition delete_place_and_associated_instances ::
  "string \<Rightarrow> datetime \<Rightarrow> store \<Rightarrow> (error + unit) \<times> store" where
  "delete_place_and_associated_instances pid now s =
     (case repo_get pid (place_repo s) of
        None \<Rightarrow> (Inl (ValueError NotFound), s)
      | Some plc \<Rightarrow>
          let uid = owner_id plc
          in (case repo_get uid (user_repo s) of
                None \<Rightarrow> (Inl (ValueError NotFound), s)
              | Some usr \<Rightarrow>
                  if pid \<in> set (places usr) then
                    let users1 = AList.map_entry uid
                                   (\<lambda>u. u\<lparr>places := remove1 pid (places u)\<rparr>) (user_repo s);
                        users2 = repo_update uid (base_update id now) users1;
                        s1 = s\<lparr>user_repo := users2\<rparr>;
                        reviews_ids_list = reviews plc
                    in if reviews_ids_list \<noteq> [] then
                         let s2 = s1\<lparr>review_repo :=
                                       fold repo_delete reviews_ids_list (review_repo s1)\<rparr>
                         in (Inr (), s2\<lparr>place_repo := repo_delete pid (place_repo s2)\<rparr>)
                       else (Inl (ValueError NotFound), s1)
                  else (Inl (ValueError NotFound), s)))"

text \<open>
  \<open>delete_user_and_associated_instances\<close> binds \<open>places_ids_list\<close> to
  \<open>user.places\<close>, the list object that the cascade of each place shrinks with
  \<open>remove\<close>, and iterates over it. A Python list iterator keeps an index \<open>i\<close>: each
  step compares \<open>i\<close> with the current length, yields the element at \<open>i\<close> and
  increments \<open>i\<close>. The cascade never adds or removes a user, so the list object is
  read as the \<open>places\<close> of the stored user.
\<close>

definition places_ids_list :: "string \<Rightarrow> store \<Rightarrow> string list" where
  "places_ids_list uid s =
     (case repo_get uid (user_repo s) of None \<Rightarrow> [] | Some usr \<Rightarrow> places usr)"

lemma repo_get_map_entry:
  "repo_get k (AList.map_entry k' f st) =
     (if k = k' then map_option f (repo_get k st) else repo_get k st)"
  by (simp add: repo_get_def map_of_map_entry split: option.splits)

lemma repo_get_repo_update:
  "repo_get k (repo_update k' f st) =
     (if k = k' then map_option f (repo_get k st) else repo_get k st)"
  by (auto simp: repo_update_def repo_get_map_entry split: option.splits)

lemma places_base_update [simp]: "places (base_update id now u) = places u"
  by (simp add: base_update_def save_def)

lemma cascade_places_length:
  "delete_place_and_associated_instances pid now s = (r, s') \<Longrightarrow>
   length (places_ids_list uid s') \<le> length (places_ids_list uid s)"
  by (auto simp: delete_place_and_associated_instances_def places_ids_list_def Let_def
        repo_get_repo_update repo_get_map_entry length_remove1
      split: option.splits if_splits)

function delete_places_loop ::
  "string \<Rightarrow> nat \<Rightarrow> datetime \<Rightarrow> store \<Rightarrow> (error + unit) \<times> store" where
  "delete_places_loop uid i now s =
     (if i < length (places_ids_list uid s) then
        (case delete_place_and_associated_instances (places_ids_list uid s ! i) now s of
           (Inl e, s') \<Rightarrow> (Inl e, s')
         | (Inr u, s') \<Rightarrow> delete_places_loop uid (Suc i) now s')
      else (Inr (), s))"
  by pat_completeness auto
termination
proof (relation "measure (\<lambda>(uid, i, now, s). length (places_ids_list uid s) - i)")
  show "wf (measure (\<lambda>(uid, i, now, s). length (places_ids_list uid s) - i))"
    by simp
next
  fix uid i now s x y u
  assume lt: "i < length (places_ids_list uid s)"
    and res: "(x, y) = delete_place_and_associated_instances (places_ids_list uid s ! i) now s"
  from res have "length (places_ids_list uid y) \<le> length (places_ids_list uid s)"
    using cascade_places_length [of "places_ids_list uid s ! i" now s x y uid] by simp
  with lt show "((uid, Suc i, now, y), (uid, i, now, s))
      \<in> measure (\<lambda>(uid, i, now, s). length (places_ids_list uid s) - i)"
    by simp
qed

declare delete_places_loop.simps [simp del]

definition delete_user_and_associated_instances ::
  "string \<Rightarrow> datetime \<Rightarrow> store \<Rightarrow> (error + unit) \<times> store" where
  "delete_user_and_associated_instances uid now s =
     (case repo_get uid (user_repo s) of
        None \<Rightarrow> (Inl (ValueError NotFound), s)
      | Some usr \<Rightarrow>
          (case (if places usr \<noteq> [] then delete_places_loop uid 0 now s else (Inr (), s)) of
             (Inl e, s') \<Rightarrow> (Inl e, s')
           | (Inr u, s') \<Rightarrow> (Inr (), s'\<lparr>user_repo := repo_delete uid (user_repo s')\<rparr>)))"

subsection \<open>Place and amenity\<close>

text \<open>
  \<open>add_amenity_to_a_place\<close> assigns the local variable \<open>amenity\<close> only when no
  amenity of that name exists; \<open>return amenity\<close> raises \<open>UnboundLocalError\<close>
  otherwise.
\<close>

definition add_amenity_to_a_place ::
  "string \<Rightarrow> amenity_data \<Rightarrow> string \<Rightarrow> datetime \<Rightarrow> store \<Rightarrow> (error + amenity) \<times> store" where
  "add_amenity_to_a_place pid d new_id now s =
     (let plc = repo_get pid (place_repo s);
          amenity_name = d_name d;
          existing_amenity = repo_get_by_attribute name amenity_name (amenity_repo s)
      in (case plc of
            None \<Rightarrow> (Inl (ValueError NotFound), s)
          | Some p \<Rightarrow>
              if amenity_name \<in> set (amenities p) then (Inl (ValueError Conflict), s)
              else if \<not> (0 < length amenity_name \<and> length amenity_name < 50)
                then (Inl (ValueError Validation), s)
              else
                let places1 = AList.map_entry pid
                                (\<lambda>q. q\<lparr>amenities := amenities q @ [amenity_name]\<rparr>)
                                (place_repo s);
                    places2 = repo_update pid (base_update id now) places1;
                    s1 = s\<lparr>place_repo := places2\<rparr>
                in if existing_amenity = [] then create_amenity d new_id now s1
                   else (Inl UnboundLocalError, s1)))"

definition delete_amenity_from_place_list ::
  "string \<Rightarrow> string \<Rightarrow> datetime \<Rightarrow> store \<Rightarrow> (error + unit) \<times> store" where
  "delete_amenity_from_place_list amenity_name pid now s =
     (case repo_get pid (place_repo s) of
        None \<Rightarrow> (Inl (ValueError NotFound), s)
      | Some p \<Rightarrow>
          if amenity_name \<in> set (amenities p) then
            let places1 = AList.map_entry pid
                            (\<lambda>q. q\<lparr>amenities := remove1 amenity_name (amenities q)\<rparr>)
                            (place_repo s);
                places2 = repo_update pid (base_update id now) places1;
                s1 = s\<lparr>place_repo := places2\<rparr>
            in (Inr (), s1\<lparr>amenity_repo := repo_delete amenity_name (amenity_repo s1)\<rparr>)
          else (Inl (ValueError NotFound), s))"

subsection \<open>User and review\<close>

text \<open>
  \<open>user_id in review.user_id\<close> is the substring test of Python strings:
  \<open>sublist\<close>. The loop also sets an attribute \<open>type\<close> on each selected review,
  which no other code of the models reads; the store is unchanged.
\<close>

definition get_all_reviews_from_user :: "string \<Rightarrow> store \<Rightarrow> error + review list" where
  "get_all_reviews_from_user uid s =
     (let usr = repo_get uid (user_repo s);
          all_reviews = repo_get_all (review_repo s)
      in if usr = None then Inl (ValueError NotFound)
         else if all_reviews = [] then Inl (ValueError NotFound)
         else let user_reviews_list = filter (\<lambda>r. sublist uid (user_id r)) all_reviews
              in if user_reviews_list = [] then Inl (ValueError NotFound)
                 else Inr user_reviews_list)"

section \<open>SQLAlchemyFacadeRelationManager (app/services/sqlalchemy-facade-relation-manager)\<close>

text \<open>
  The objects are rows tracked by the session. Assigning a new list to an attribute and
  committing rewrites the row and stamps \<open>updated_at\<close> (\<open>onupdate\<close>); the list that
  the attribute held before is left as it was.
\<close>

definition commit :: "datetime \<Rightarrow> 'a base_model_scheme \<Rightarrow> 'a base_model_scheme" where
  "commit now obj = obj\<lparr>updated_at := now\<rparr>"


text \<open>
  \<open>delete_place_from_owner_place_list\<close>: the body, and the handler
  \<open>except ValueError as e: print(str(e))\<close> around it, which ends the call normally.
\<close>

definition sqlalchemy_delete_place_from_owner_place_list_body ::
  "string \<Rightarrow> string \<Rightarrow> datetime \<Rightarrow> store \<Rightarrow> (error + unit) \<times> store" where
  "sqlalchemy_delete_place_from_owner_place_list_body pid uid now s =
     (case repo_get uid (user_repo s) of
        None \<Rightarrow> (Inl (ValueError NotFound), s)
      | Some usr \<Rightarrow>
          if pid \<in> set (places usr) then
            let s1 = s\<lparr>user_repo := AList.map_entry uid
                        (\<lambda>u. commit now (u\<lparr>places := filter (\<lambda>x. x \<noteq> pid) (places u)\<rparr>))
                        (user_repo s)\<rparr>
            in (Inr (), s1\<lparr>place_repo := repo_delete pid (place_repo s1)\<rparr>)
          else (Inl (ValueError NotFound), s))"

definition sqlalchemy_delete_place_from_owner_place_list ::
  "string \<Rightarrow> string \<Rightarrow> datetime \<Rightarrow> store \<Rightarrow> (error + unit) \<times> store" where
  "sqlalchemy_delete_place_from_owner_place_list pid uid now s =
     (case sqlalchemy_delete_place_from_owner_place_list_body pid uid now s of
        (Inl (ValueError k), s') \<Rightarrow> (Inr (), s')
      | (r, s') \<Rightarrow> (r, s'))"

definition sqlalchemy_delete_place_and_associated_instances ::
  "string \<Rightarrow> datetime \<Rightarrow> store \<Rightarrow> (error + unit) \<times> store" where
  "sqlalchemy_delete_place_and_associated_instances pid now s =
     (case repo_get pid (place_repo s) of
        None \<Rightarrow> (Inl (ValueError NotFound), s)
      | Some plc \<Rightarrow>
          let uid = owner_id plc
          in (case repo_get uid (user_repo s) of
                None \<Rightarrow> (Inl (ValueError NotFound), s)
              | Some usr \<Rightarrow>
                  if pid \<in> set (places usr) then
                    let s1 = s\<lparr>user_repo := AList.map_entry uid
                                (\<lambda>u. commit now (u\<lparr>places := filter (\<lambda>x. x \<noteq> pid) (places u)\<rparr>))
                                (user_repo s)\<rparr>;
                        s2 = s1\<lparr>review_repo := fold repo_delete (reviews plc) (review_repo s1)\<rparr>
                    in (Inr (), s2\<lparr>place_repo := repo_delete pid (place_repo s2)\<rparr>)
                  else (Inl (ValueError NotFound), s)))"

text \<open>
  \<open>delete_user_and_associated_instances\<close> iterates over the list that
  \<open>user.places\<close> held when it was read: the cascade assigns a new list to the
  attribute and does not change that one.
\<close>

fun sqlalchemy_delete_places ::
  "string list \<Rightarrow> datetime \<Rightarrow> store \<Rightarrow> (error + unit) \<times> store" where
  "sqlalchemy_delete_places [] now s = (Inr (), s)"
| "sqlalchemy_delete_places (pid # rest) now s =
     (case sqlalchemy_delete_place_and_associated_instances pid now s of
        (Inl e, s') \<Rightarrow> (Inl e, s')
      | (Inr u, s') \<Rightarrow> sqlalchemy_delete_places rest now s')"

definition sqlalchemy_delete_user_and_associated_instances ::
  "string \<Rightarrow> datetime \<Rightarrow> store \<Rightarrow> (error + unit) \<times> store" where
  "sqlalchemy_delete_user_and_associated_instances uid now s =
     (case repo_get uid (user_repo s) of
        None \<Rightarrow> (Inl (ValueError NotFound), s)
      | Some usr \<Rightarrow>
          (case sqlalchemy_delete_places (places usr) now s of
             (Inl e, s') \<Rightarrow> (Inl e, s')
           | (Inr u, s') \<Rightarrow> (Inr (), s'\<lparr>user_repo := repo_delete uid (user_repo s')\<rparr>)))"

text \<open>
  \<open>add_amenity_to_a_place\<close> returns the local variable \<open>amenity\<close>: the list found
  by \<open>get_by_attribute\<close> when it is not empty, the record of the new amenity otherwise.
\<close>

datatype amenity_result = Found_list "amenity list" | Created amenity

definition sqlalchemy_add_amenity_to_a_place ::
  "string \<Rightarrow> amenity_data \<Rightarrow> string \<Rightarrow> datetime \<Rightarrow> store \<Rightarrow>
   (error + amenity_result) \<times> store" where
  "sqlalchemy_add_amenity_to_a_place pid d new_id now s =
     (let plc = repo_get pid (place_repo s);
          amenity_name = d_name d;
          found = repo_get_by_attribute name amenity_name (amenity_repo s)
      in (case plc of
            None \<Rightarrow> (Inl (ValueError NotFound), s)
          | Some p \<Rightarrow>
              if amenity_name \<notin> set (amenities p) then
                let s1 = s\<lparr>place_repo := AList.map_entry pid
                            (\<lambda>q. commit now (q\<lparr>amenities := amenities q @ [amenity_name]\<rparr>))
                            (place_repo s)\<rparr>
                in if found = [] then
                     (case create_amenity d new_id now s1 of
                        (Inl e, s2) \<Rightarrow> (Inl e, s2)
                      | (Inr a, s2) \<Rightarrow> (Inr (Created a), s2))
                   else (Inr (Found_list found), s1)
              else (Inl (ValueError Conflict), s)))"

definition sqlalchemy_delete_amenity_from_place_list ::
  "string \<Rightarrow> string \<Rightarrow> datetime \<Rightarrow> store \<Rightarrow> (error + unit) \<times> store" where
  "sqlalchemy_delete_amenity_from_place_list amenity_name pid now s =
     (case repo_get pid (place_repo s) of
        None \<Rightarrow> (Inl (ValueError NotFound), s)
      | Some p \<Rightarrow>
          if amenity_name \<in> set (amenities p) then
            (Inr (), s\<lparr>place_repo := AList.map_entry pid
                (\<lambda>q. commit now (q\<lparr>amenities := filter (\<lambda>x. x \<noteq> amenity_name) (amenities q)\<rparr>))
                (place_repo s)\<rparr>)
          else (Inl (ValueError NotFound), s))"

section \<open>Exported records: the to-dict methods and InFileRepository.dict-to-obj\<close>

text \<open>
  Python attributes are untyped: \<open>BaseModel.update\<close> assigns with \<open>setattr\<close>
  whatever value the payload holds under the name of an attribute, \<open>None\<close> included
  (\<open>PlaceFacade.update_place\<close> passes the payload of the request on as it is). For the
  conversion between objects and exported records an object is therefore its class
  together with the values of its attributes, and an exported record is a dictionary
  from keys to values. The records of the sections above are the objects whose
  attributes hold values of the expected types.

  \<open>datetime.isoformat\<close> and \<open>datetime.fromisoformat\<close> belong to the Python
  library: they are parameters, \<open>fromisoformat\<close> giving \<open>None\<close> where the library
  raises \<open>ValueError\<close>.
\<close>

datatype pyval =
  NoneVal | Str string | Bool bool | Num number | StrList "string list" | Datetime datetime

type_synonym obj_data = "string \<rightharpoonup> pyval"

datatype model_class = User | Place | Review | Amenity

record model_obj =
  model :: model_class
  attrs :: "string \<rightharpoonup> pyval"

definition and_then :: "error + 'a \<Rightarrow> ('a \<Rightarrow> error + 'b) \<Rightarrow> error + 'b" where
  "and_then r f = (case r of Inl e \<Rightarrow> Inl e | Inr v \<Rightarrow> f v)"

text \<open>
  Reading an attribute that the object does not have raises \<open>AttributeError\<close>, and so
  does \<open>self.created_at.isoformat()\<close> when the attribute is not a \<open>datetime\<close>.
\<close>

definition getattr :: "model_obj \<Rightarrow> string \<Rightarrow> error + pyval" where
  "getattr self k = (case attrs self k of None \<Rightarrow> Inl AttributeError | Some v \<Rightarrow> Inr v)"

definition attr_isoformat :: "(datetime \<Rightarrow> string) \<Rightarrow> model_obj \<Rightarrow> string \<Rightarrow> error + pyval" where
  "attr_isoformat isoformat self k =
     and_then (getattr self k) (\<lambda>v.
       case v of Datetime t \<Rightarrow> Inr (Str (isoformat t)) | other \<Rightarrow> Inl AttributeError)"

definition user_to_dict :: "(datetime \<Rightarrow> string) \<Rightarrow> model_obj \<Rightarrow> error + obj_data" where
  "user_to_dict isoformat self =
     and_then (getattr self ''id'') (\<lambda>v_id.
     and_then (getattr self ''first_name'') (\<lambda>v_first_name.
     and_then (getattr self ''last_name'') (\<lambda>v_last_name.
     and_then (getattr self ''email'') (\<lambda>v_email.
     and_then (getattr self ''password'') (\<lambda>v_password.
     and_then (getattr self ''is_admin'') (\<lambda>v_is_admin.
     and_then (getattr self ''places'') (\<lambda>v_places.
     and_then (attr_isoformat isoformat self ''created_at'') (\<lambda>v_created_at.
     and_then (attr_isoformat isoformat self ''updated_at'') (\<lambda>v_updated_at.
     Inr [''type'' \<mapsto> Str ''user'',
          ''id'' \<mapsto> v_id,
          ''first_name'' \<mapsto> v_first_name,
          ''last_name'' \<mapsto> v_last_name,
          ''email'' \<mapsto> v_email,
          ''password'' \<mapsto> v_password,
          ''is_admin'' \<mapsto> v_is_admin,
          ''places'' \<mapsto> v_places,
          ''created_at'' \<mapsto> v_created_at,
          ''updated_at'' \<mapsto> v_updated_at])))))))))"

definition place_to_dict :: "(datetime \<Rightarrow> string) \<Rightarrow> model_obj \<Rightarrow> error + obj_data" where
  "place_to_dict isoformat self =
     and_then (getattr self ''id'') (\<lambda>v_id.
     and_then (getattr self ''title'') (\<lambda>v_title.
     and_then (getattr self ''description'') (\<lambda>v_description.
     and_then (getattr self ''price'') (\<lambda>v_price.
     and_then (getattr self ''latitude'') (\<lambda>v_latitude.
     and_then (getattr self ''longitude'') (\<lambda>v_longitude.
     and_then (getattr self ''owner_first_name'') (\<lambda>v_owner_first_name.
     and_then (getattr self ''owner_id'') (\<lambda>v_owner_id.
     and_then (getattr self ''reviews'') (\<lambda>v_reviews.
     and_then (getattr self ''amenities'') (\<lambda>v_amenities.
     and_then (attr_isoformat isoformat self ''created_at'') (\<lambda>v_created_at.
     and_then (attr_isoformat isoformat self ''updated_at'') (\<lambda>v_updated_at.
     Inr [''type'' \<mapsto> Str ''place'',
          ''id'' \<mapsto> v_id,
          ''title'' \<mapsto> v_title,
          ''description'' \<mapsto> v_description,
          ''price'' \<mapsto> v_price,
          ''latitude'' \<mapsto> v_latitude,
          ''longitude'' \<mapsto> v_longitude,
          ''owner_first_name'' \<mapsto> v_owner_first_name,
          ''owner_id'' \<mapsto> v_owner_id,
          ''reviews'' \<mapsto> v_reviews,
          ''amenities'' \<mapsto> v_amenities,
          ''created_at'' \<mapsto> v_created_at,
          ''updated_at'' \<mapsto> v_updated_at]))))))))))))"

definition amenity_to_dict :: "(datetime \<Rightarrow> string) \<Rightarrow> model_obj \<Rightarrow> error + obj_data" where
  "amenity_to_dict isoformat self =
     and_then (getattr self ''id'') (\<lambda>v_id.
     and_then (getattr self ''name'') (\<lambda>v_name.
     and_then (attr_isoformat isoformat self ''created_at'') (\<lambda>v_created_at.
     and_then (attr_isoformat isoformat self ''updated_at'') (\<lambda>v_updated_at.
     Inr [''type'' \<mapsto> Str ''amenity'',
          ''id'' \<mapsto> v_id,
          ''name'' \<mapsto> v_name,
          ''created_at'' \<mapsto> v_created_at,
          ''updated_at'' \<mapsto> v_updated_at]))))"

definition review_to_dict :: "(datetime \<Rightarrow> string) \<Rightarrow> model_obj \<Rightarrow> error + obj_data" where
  "review_to_dict isoformat self =
     and_then (getattr self ''id'') (\<lambda>v_id.
     and_then (getattr self ''text'') (\<lambda>v_text.
     and_then (getattr self ''rating'') (\<lambda>v_rating.
     and_then (getattr self ''place_id'') (\<lambda>v_place_id.
     and_then (getattr self ''place_name'') (\<lambda>v_place_name.
     and_then (getattr self ''user_id'') (\<lambda>v_user_id.
     and_then (getattr self ''user_first_name'') (\<lambda>v_user_first_name.
     and_then (attr_isoformat isoformat self ''created_at'') (\<lambda>v_created_at.
     and_then (attr_isoformat isoformat self ''updated_at'') (\<lambda>v_updated_at.
     Inr [''type'' \<mapsto> Str ''review'',
          ''id'' \<mapsto> v_id,
          ''text'' \<mapsto> v_text,
          ''rating'' \<mapsto> v_rating,
          ''place_id'' \<mapsto> v_place_id,
          ''place_name'' \<mapsto> v_place_name,
          ''user_id'' \<mapsto> v_user_id,
          ''user_first_name'' \<mapsto> v_user_first_name,
          ''created_at'' \<mapsto> v_created_at,
          ''updated_at'' \<mapsto> v_updated_at])))))))))"

text \<open>\<open>obj.to_dict()\<close>: the method of the object's class.\<close>

definition to_dict :: "(datetime \<Rightarrow> string) \<Rightarrow> model_obj \<Rightarrow> error + obj_data" where
  "to_dict isoformat self =
     (case model self of
        User \<Rightarrow> user_to_dict isoformat self
      | Place \<Rightarrow> place_to_dict isoformat self
      | Review \<Rightarrow> review_to_dict isoformat self
      | Amenity \<Rightarrow> amenity_to_dict isoformat self)"

text \<open>Reading a key of the dictionary raises \<open>KeyError\<close> when it is absent.\<close>

definition getitem :: "obj_data \<Rightarrow> string \<Rightarrow> error + pyval" where
  "getitem d k = (case d k of None \<Rightarrow> Inl (KeyError k) | Some v \<Rightarrow> Inr v)"

text \<open>
  The first two statements of \<open>dict_to_obj\<close>: a timestamp present in the dictionary
  is replaced, in the dictionary, by the \<open>datetime\<close> parsed from it.
  \<open>fromisoformat\<close> raises \<open>TypeError\<close> on a value that is not a string.
\<close>

definition parse_timestamp ::
  "(string \<Rightarrow> datetime option) \<Rightarrow> string \<Rightarrow> obj_data \<Rightarrow> error + obj_data" where
  "parse_timestamp fromisoformat k d =
     (case d k of
        None \<Rightarrow> Inr d
      | Some (Str v) \<Rightarrow>
          (case fromisoformat v of
             None \<Rightarrow> Inl (ValueError Validation)
           | Some t \<Rightarrow> Inr (d(k \<mapsto> Datetime t)))
      | Some other \<Rightarrow> Inl TypeError)"

text \<open>\<open>Place.__init__\<close>: \<open>reviews if reviews is not None else []\<close>, and the same for \<open>amenities\<close>.\<close>

definition if_not_None_else_empty :: "pyval \<Rightarrow> pyval" where
  "if_not_None_else_empty v = (if v \<noteq> NoneVal then v else StrList [])"

text \<open>
  \<open>dict_to_obj\<close> calls the constructor of the class named by \<open>type\<close> and then
  assigns \<open>id\<close>, \<open>created_at\<close> and \<open>updated_at\<close> (and \<open>places\<close> of a user) from
  the dictionary. The id and the timestamps that the constructor draws are overwritten at
  once and do not appear in the result, nor does the empty \<open>places\<close> that
  \<open>User.__init__\<close> sets.
\<close>

definition dict_to_obj :: "(string \<Rightarrow> datetime option) \<Rightarrow> obj_data \<Rightarrow> error + model_obj" where
  "dict_to_obj fromisoformat obj_data0 =
     and_then (parse_timestamp fromisoformat ''created_at'' obj_data0) (\<lambda>obj_data1.
     and_then (parse_timestamp fromisoformat ''updated_at'' obj_data1) (\<lambda>obj_data.
     let obj_type = obj_data ''type''
     in if obj_type = Some (Str ''user'') then
          and_then (getitem obj_data ''first_name'') (\<lambda>v_first_name.
          and_then (getitem obj_data ''last_name'') (\<lambda>v_last_name.
          and_then (getitem obj_data ''email'') (\<lambda>v_email.
          and_then (getitem obj_data ''password'') (\<lambda>v_password.
          and_then (getitem obj_data ''is_admin'') (\<lambda>v_is_admin.
          and_then (getitem obj_data ''id'') (\<lambda>v_id.
          and_then (getitem obj_data ''created_at'') (\<lambda>v_created_at.
          and_then (getitem obj_data ''updated_at'') (\<lambda>v_updated_at.
          and_then (getitem obj_data ''places'') (\<lambda>v_places.
          Inr \<lparr>model = User,
               attrs = [''first_name'' \<mapsto> v_first_name,
                        ''last_name'' \<mapsto> v_last_name,
                        ''email'' \<mapsto> v_email,
                        ''password'' \<mapsto> v_password,
                        ''is_admin'' \<mapsto> v_is_admin,
                        ''id'' \<mapsto> v_id,
                        ''created_at'' \<mapsto> v_created_at,
                        ''updated_at'' \<mapsto> v_updated_at,
                        ''places'' \<mapsto> v_places]\<rparr>)))))))))
        else if obj_type = Some (Str ''place'') then
          and_then (getitem obj_data ''title'') (\<lambda>v_title.
          and_then (getitem obj_data ''description'') (\<lambda>v_description.
          and_then (getitem obj_data ''price'') (\<lambda>v_price.
          and_then (getitem obj_data ''latitude'') (\<lambda>v_latitude.
          and_then (getitem obj_data ''longitude'') (\<lambda>v_longitude.
          and_then (getitem obj_data ''owner_first_name'') (\<lambda>v_owner_first_name.
          and_then (getitem obj_data ''owner_id'') (\<lambda>v_owner_id.
          and_then (getitem obj_data ''amenities'') (\<lambda>v_amenities.
          and_then (getitem obj_data ''reviews'') (\<lambda>v_reviews.
          and_then (getitem obj_data ''id'') (\<lambda>v_id.
          and_then (getitem obj_data ''created_at'') (\<lambda>v_created_at.
          and_then (getitem obj_data ''updated_at'') (\<lambda>v_updated_at.
          Inr \<lparr>model = Place,
               attrs = [''title'' \<mapsto> v_title,
                        ''description'' \<mapsto> v_description,
                        ''price'' \<mapsto> v_price,
                        ''latitude'' \<mapsto> v_latitude,
                        ''longitude'' \<mapsto> v_longitude,
                        ''owner_first_name'' \<mapsto> v_owner_first_name,
                        ''owner_id'' \<mapsto> v_owner_id,
                        ''reviews'' \<mapsto> if_not_None_else_empty v_reviews,
                        ''amenities'' \<mapsto> if_not_None_else_empty v_amenities,
                        ''id'' \<mapsto> v_id,
                        ''created_at'' \<mapsto> v_created_at,
                        ''updated_at'' \<mapsto> v_updated_at]\<rparr>))))))))))))
        else if obj_type = Some (Str ''review'') then
          and_then (getitem obj_data ''text'') (\<lambda>v_text.
          and_then (getitem obj_data ''rating'') (\<lambda>v_rating.
          and_then (getitem obj_data ''place_id'') (\<lambda>v_place_id.
          and_then (getitem obj_data ''place_name'') (\<lambda>v_place_name.
          and_then (getitem obj_data ''user_id'') (\<lambda>v_user_id.
          and_then (getitem obj_data ''user_first_name'') (\<lambda>v_user_first_name.
          and_then (getitem obj_data ''id'') (\<lambda>v_id.
          and_then (getitem obj_data ''created_at'') (\<lambda>v_created_at.
          and_then (getitem obj_data ''updated_at'') (\<lambda>v_updated_at.
          Inr \<lparr>model = Review,
               attrs = [''text'' \<mapsto> v_text,
                        ''rating'' \<mapsto> v_rating,
                        ''place_id'' \<mapsto> v_place_id,
                        ''place_name'' \<mapsto> v_place_name,
                        ''user_id'' \<mapsto> v_user_id,
                        ''user_first_name'' \<mapsto> v_user_first_name,
                        ''id'' \<mapsto> v_id,
                        ''created_at'' \<mapsto> v_created_at,
                        ''updated_at'' \<mapsto> v_updated_at]\<rparr>)))))))))
        else if obj_type = Some (Str ''amenity'') then
          and_then (getitem obj_data ''name'') (\<lambda>v_name.
          and_then (getitem obj_data ''id'') (\<lambda>v_id.
          and_then (getitem obj_data ''created_at'') (\<lambda>v_created_at.
          and_then (getitem obj_data ''updated_at'') (\<lambda>v_updated_at.
          Inr \<lparr>model = Amenity,
               attrs = [''name'' \<mapsto> v_name,
                        ''id'' \<mapsto> v_id,
                        ''created_at'' \<mapsto> v_created_at,
                        ''updated_at'' \<mapsto> v_updated_at]\<rparr>))))
        else Inl (ValueError Validation)))"

section \<open>Coordinates of a new place\<close>

lemma place_is_valid_longitude_above:
  "180 < num_val (longitude p) \<Longrightarrow> \<exists>e. place_is_valid p = Inl e"
  by (simp add: place_is_valid_def)

lemma place_is_valid_latitude_outside:
  "90 < num_val (latitude p) \<or> num_val (latitude p) < - 90 \<Longrightarrow> \<exists>e. place_is_valid p = Inl e"
  by (auto simp add: place_is_valid_def)

text \<open>
  A longitude above 180, or a latitude outside \<open>[-90, 90]\<close>, is refused and the store is
  left as it was.
\<close>

lemma create_place_rejects_longitude_above:
  "180 < num_val (d_longitude d) \<Longrightarrow> \<exists>e. create_place d new_id now s = (Inl e, s)"
  using place_is_valid_longitude_above [of "Place_init d new_id now"]
  by (auto simp: create_place_def Let_def Place_init_def)

lemma create_place_rejects_latitude_outside:
  "90 < num_val (d_latitude d) \<or> num_val (d_latitude d) < - 90 \<Longrightarrow>
   \<exists>e. create_place d new_id now s = (Inl e, s)"
  using place_is_valid_latitude_outside [of "Place_init d new_id now"]
  by (auto simp: create_place_def Let_def Place_init_def)

text \<open>
  The last test of \<open>Place.is_valid\<close> compares the latitude, not the longitude, with
  \<open>-180\<close>. A payload that is well-formed but for a longitude below \<open>-180\<close> is
  therefore stored.
\<close>

lemma create_place_accepts_longitude_below:
  assumes "repo_get_by_attribute title (d_title d) (place_repo s) = []"
    and "0 \<le> num_val (d_price d)" "is_float (d_price d)"
    and "0 < length (d_title d)" "length (d_title d) < 100"
    and "0 < length (d_description d)" "length (d_description d) < 500"
    and "0 < length (d_owner_first_name d)" "length (d_owner_first_name d) < 100"
    and "0 < length (d_owner_id d)" "length (d_owner_id d) < 100"
    and "is_float (d_latitude d)" "- 90 \<le> num_val (d_latitude d)" "num_val (d_latitude d) \<le> 90"
    and "is_float (d_longitude d)" "num_val (d_longitude d) < - 180"
  shows "create_place d new_id now s =
     (Inr (Place_init d new_id now),
      s\<lparr>place_repo := repo_add (Place_init d new_id now) (place_repo s)\<rparr>)"
  using assms by (simp add: create_place_def Let_def Place_init_def place_is_valid_def)

text \<open>
  C8. The claim: a payload whose longitude is outside \<open>[-180, 180]\<close> is refused by
  \<open>PlaceFacade.create_place\<close> and nothing is written. On the code: with the longitude
  \<open>-200.0\<close>, the latitude \<open>10.0\<close> and every other field well-formed, on an empty
  store, \<open>create_place\<close> returns the new place and the place repository holds it.
\<close>

theorem create_place_longitude_minus_200:
  "create_place
     \<lparr>d_title = ''Loft'', d_description = ''x'', d_price = PyFloat 100,
      d_latitude = PyFloat 10, d_longitude = PyFloat (- 200),
      d_owner_first_name = ''Ann'', d_owner_id = ''u1'',
      d_amenities = None, d_reviews = None\<rparr>
     ''p1'' 0
     \<lparr>user_repo = [], place_repo = [], amenity_repo = [], review_repo = []\<rparr>
   = (Inr \<lparr>obj_id = ''p1'', created_at = 0, updated_at = 0, title = ''Loft'',
           description = ''x'', price = PyFloat 100, latitude = PyFloat 10,
           longitude = PyFloat (- 200), owner_first_name = ''Ann'', owner_id = ''u1'',
           reviews = [], amenities = []\<rparr>,
      \<lparr>user_repo = [],
       place_repo = [(''p1'', \<lparr>obj_id = ''p1'', created_at = 0, updated_at = 0, title = ''Loft'',
           description = ''x'', price = PyFloat 100, latitude = PyFloat 10,
           longitude = PyFloat (- 200), owner_first_name = ''Ann'', owner_id = ''u1'',
           reviews = [], amenities = []\<rparr>)],
       amenity_repo = [], review_repo = []\<rparr>)"
  by (simp add: create_place_def Let_def Place_init_def place_is_valid_def
        repo_get_by_attribute_def repo_add_def)

section \<open>Amenities of a place\<close>

text \<open>
  The name test of \<open>add_amenity_to_a_place\<close>: an empty name, or one of 50 characters
  or more, is refused and the store is left as it was; a name of 1 to 49 characters that
  the place does not list yet is appended to the amenities of the place.
\<close>

lemma add_amenity_rejects_length:
  assumes "length (d_name d) = 0 \<or> 50 \<le> length (d_name d)"
  shows "\<exists>e. add_amenity_to_a_place pid d new_id now s = (Inl e, s)"
  using assms by (auto simp: add_amenity_to_a_place_def Let_def split: option.splits)

lemma add_amenity_validation_error:
  assumes "repo_get pid (place_repo s) = Some p" and "d_name d \<notin> set (amenities p)"
    and "length (d_name d) = 0 \<or> 50 \<le> length (d_name d)"
  shows "add_amenity_to_a_place pid d new_id now s = (Inl (ValueError Validation), s)"
  using assms by (auto simp: add_amenity_to_a_place_def Let_def)

lemma add_amenity_passes_name_check:
  assumes "repo_get pid (place_repo s) = Some p" and "d_name d \<notin> set (amenities p)"
    and "0 < length (d_name d)" "length (d_name d) < 50"
  shows "\<exists>r s'. add_amenity_to_a_place pid d new_id now s = (r, s') \<and>
          map_option amenities (repo_get pid (place_repo s')) = Some (amenities p @ [d_name d])"
  using assms
  by (auto simp: add_amenity_to_a_place_def Let_def create_amenity_def repo_get_repo_update
      repo_get_map_entry base_update_def save_def split: sum.splits)

text \<open>
  C9. The claim: the name test passes for every length from 1 to 50. On the code: for a
  name of exactly 50 characters that the place does not list, \<open>add_amenity_to_a_place\<close>
  raises the validation error and leaves the store as it was.
\<close>

theorem add_amenity_name_of_50_characters:
  "add_amenity_to_a_place ''p1'' \<lparr>d_name = replicate 50 CHR ''a''\<rparr> ''a1'' 1
     \<lparr>user_repo = [],
      place_repo = [(''p1'', \<lparr>obj_id = ''p1'', created_at = 0, updated_at = 0, title = ''Loft'',
           description = ''x'', price = PyFloat 100, latitude = PyFloat 10,
           longitude = PyFloat 10, owner_first_name = ''Ann'', owner_id = ''u1'',
           reviews = [], amenities = []\<rparr>)],
      amenity_repo = [], review_repo = []\<rparr>
   = (Inl (ValueError Validation),
     \<lparr>user_repo = [],
      place_repo = [(''p1'', \<lparr>obj_id = ''p1'', created_at = 0, updated_at = 0, title = ''Loft'',
           description = ''x'', price = PyFloat 100, latitude = PyFloat 10,
           longitude = PyFloat 10, owner_first_name = ''Ann'', owner_id = ''u1'',
           reviews = [], amenities = []\<rparr>)],
      amenity_repo = [], review_repo = []\<rparr>)"
  by (simp add: add_amenity_to_a_place_def Let_def repo_get_def)

subsection \<open>Get or create\<close>

lemma length_strip: "length (strip s) \<le> length s"
proof -
  have "length (strip s) \<le> length (dropWhile isspace s)"
    unfolding strip_def using length_dropWhile_le [of isspace "rev (dropWhile isspace s)"]
    by simp
  also have "\<dots> \<le> length s" by (rule length_dropWhile_le)
  finally show ?thesis .
qed

text \<open>
  When no amenity of the name exists, and the name is not blank, the amenity is created
  and its record returned.
\<close>

lemma add_amenity_creates:
  assumes "repo_get pid (place_repo s) = Some p" and "d_name d \<notin> set (amenities p)"
    and "0 < length (strip (d_name d))" and "length (d_name d) < 50"
    and "repo_get_by_attribute name (d_name d) (amenity_repo s) = []"
  shows "add_amenity_to_a_place pid d new_id now s =
     (Inr (Amenity_init (d_name d) new_id now),
      s\<lparr>place_repo := repo_update pid (base_update id now)
           (AList.map_entry pid (\<lambda>q. q\<lparr>amenities := amenities q @ [d_name d]\<rparr>) (place_repo s)),
        amenity_repo := repo_add (Amenity_init (d_name d) new_id now) (amenity_repo s)\<rparr>)"
proof -
  from assms(3) length_strip [of "d_name d"] have pos: "0 < length (d_name d)"
    by (rule less_le_trans)
  from length_strip [of "d_name d"] assms(4) have "length (strip (d_name d)) < 50"
    by (rule le_less_trans)
  with assms(3) have valid: "amenity_is_valid (Amenity_init (d_name d) new_id now) = Inr True"
    by (simp add: amenity_is_valid_def Amenity_init_def)
  show ?thesis
    using assms(1,2,4,5) pos valid
    by (simp add: add_amenity_to_a_place_def create_amenity_def Let_def Amenity_init_def)
qed

text \<open>
  When an amenity of the name exists already, the place is changed and then
  \<open>return amenity\<close> fails: no record is returned.
\<close>

lemma add_amenity_existing:
  assumes "repo_get pid (place_repo s) = Some p" and "d_name d \<notin> set (amenities p)"
    and "0 < length (d_name d)" and "length (d_name d) < 50"
    and "repo_get_by_attribute name (d_name d) (amenity_repo s) \<noteq> []"
  shows "add_amenity_to_a_place pid d new_id now s =
     (Inl UnboundLocalError,
      s\<lparr>place_repo := repo_update pid (base_update id now)
           (AList.map_entry pid (\<lambda>q. q\<lparr>amenities := amenities q @ [d_name d]\<rparr>) (place_repo s))\<rparr>)"
  using assms by (simp add: add_amenity_to_a_place_def Let_def)

text \<open>The other manager returns what \<open>get_by_attribute\<close> found.\<close>

lemma sqlalchemy_add_amenity_existing:
  assumes "repo_get pid (place_repo s) = Some p" and "d_name d \<notin> set (amenities p)"
    and "repo_get_by_attribute name (d_name d) (amenity_repo s) \<noteq> []"
  shows "fst (sqlalchemy_add_amenity_to_a_place pid d new_id now s) =
     Inr (Found_list (repo_get_by_attribute name (d_name d) (amenity_repo s)))"
  using assms by (simp add: sqlalchemy_add_amenity_to_a_place_def Let_def)

text \<open>
  C5. The claim: \<open>add_amenity_to_a_place\<close> returns the existing amenity record when
  an amenity of the name exists already. On the code: with a stored amenity named
  \<open>Wifi\<close> and a place that does not list it, the call appends the name to the place,
  saves the place and raises \<open>UnboundLocalError\<close>.
\<close>

theorem add_amenity_existing_wifi:
  "add_amenity_to_a_place ''p1'' \<lparr>d_name = ''Wifi''\<rparr> ''a2'' 1
     \<lparr>user_repo = [],
      place_repo = [(''p1'', \<lparr>obj_id = ''p1'', created_at = 0, updated_at = 0, title = ''Loft'',
           description = ''x'', price = PyFloat 100, latitude = PyFloat 10,
           longitude = PyFloat 10, owner_first_name = ''Ann'', owner_id = ''u1'',
           reviews = [], amenities = []\<rparr>)],
      amenity_repo = [(''a1'', \<lparr>obj_id = ''a1'', created_at = 0, updated_at = 0,
           name = ''Wifi''\<rparr>)],
      review_repo = []\<rparr>
   = (Inl UnboundLocalError,
     \<lparr>user_repo = [],
      place_repo = [(''p1'', \<lparr>obj_id = ''p1'', created_at = 0, updated_at = 1, title = ''Loft'',
           description = ''x'', price = PyFloat 100, latitude = PyFloat 10,
           longitude = PyFloat 10, owner_first_name = ''Ann'', owner_id = ''u1'',
           reviews = [], amenities = [''Wifi'']\<rparr>)],
      amenity_repo = [(''a1'', \<lparr>obj_id = ''a1'', created_at = 0, updated_at = 0,
           name = ''Wifi''\<rparr>)],
      review_repo = []\<rparr>)"
  by (simp add: add_amenity_to_a_place_def Let_def repo_get_def repo_get_by_attribute_def
      repo_update_def base_update_def save_def)

subsection \<open>Removing an amenity from a place\<close>

lemma delete_amenity_from_place_list_amenities:
  assumes "repo_get pid (place_repo s) = Some p" and "amenity_name \<in> set (amenities p)"
  shows "\<exists>s'. delete_amenity_from_place_list amenity_name pid now s = (Inr (), s') \<and>
           map_option amenities (repo_get pid (place_repo s')) =
             Some (remove1 amenity_name (amenities p)) \<and>
           amenity_repo s' = repo_delete amenity_name (amenity_repo s)"
  using assms
  by (simp add: delete_amenity_from_place_list_def Let_def repo_get_repo_update
      repo_get_map_entry base_update_def save_def)

text \<open>
  The call \<open>amenity_repo.delete(amenity_name)\<close> looks the name up among the ids. When
  no amenity has the name as its id, the amenity repository is left as it was.
\<close>

lemma delete_amenity_from_place_list_keeps_amenities:
  assumes "amenity_name \<notin> fst ` set (amenity_repo s)"
    and "delete_amenity_from_place_list amenity_name pid now s = (r, s')"
  shows "amenity_repo s' = amenity_repo s"
  using assms
  by (auto simp: delete_amenity_from_place_list_def Let_def repo_delete_def
      split: option.splits if_splits)

lemma sqlalchemy_delete_amenity_from_place_list_keeps_amenities:
  assumes "sqlalchemy_delete_amenity_from_place_list amenity_name pid now s = (r, s')"
  shows "amenity_repo s' = amenity_repo s"
  using assms
  by (auto simp: sqlalchemy_delete_amenity_from_place_list_def split: option.splits if_splits)

text \<open>
  C4. The claim: \<open>delete_amenity_from_place_list\<close> deletes no amenity entity. On the
  code: the amenity \<open>Wifi\<close> has the id \<open>a1\<close>, a second amenity is named \<open>a1\<close>
  and the place lists the name \<open>a1\<close>; removing \<open>a1\<close> from the place deletes the
  amenity \<open>Wifi\<close> from the amenity repository.
\<close>

theorem delete_amenity_named_as_an_id:
  "delete_amenity_from_place_list ''a1'' ''p1'' 1
     \<lparr>user_repo = [],
      place_repo = [(''p1'', \<lparr>obj_id = ''p1'', created_at = 0, updated_at = 0, title = ''Loft'',
           description = ''x'', price = PyFloat 100, latitude = PyFloat 10,
           longitude = PyFloat 10, owner_first_name = ''Ann'', owner_id = ''u1'',
           reviews = [], amenities = [''a1'']\<rparr>)],
      amenity_repo =
        [(''a1'', \<lparr>obj_id = ''a1'', created_at = 0, updated_at = 0, name = ''Wifi''\<rparr>),
         (''a2'', \<lparr>obj_id = ''a2'', created_at = 0, updated_at = 0, name = ''a1''\<rparr>)],
      review_repo = []\<rparr>
   = (Inr (),
     \<lparr>user_repo = [],
      place_repo = [(''p1'', \<lparr>obj_id = ''p1'', created_at = 0, updated_at = 1, title = ''Loft'',
           description = ''x'', price = PyFloat 100, latitude = PyFloat 10,
           longitude = PyFloat 10, owner_first_name = ''Ann'', owner_id = ''u1'',
           reviews = [], amenities = []\<rparr>)],
      amenity_repo =
        [(''a2'', \<lparr>obj_id = ''a2'', created_at = 0, updated_at = 0, name = ''a1''\<rparr>)],
      review_repo = []\<rparr>)"
  by (simp add: delete_amenity_from_place_list_def Let_def repo_get_def repo_delete_def
      repo_update_def base_update_def save_def AList.delete_eq)

section \<open>Errors\<close>

text \<open>
  The manager of the whole-object backend raises when the user is absent. The body of
  the other manager raises as well, and its handler ends the call normally, whatever the
  input.
\<close>

lemma delete_place_from_owner_place_list_raises:
  assumes "repo_get uid (user_repo s) = None"
  shows "delete_place_from_owner_place_list pid uid now s = (Inl (ValueError NotFound), s)"
  using assms by (simp add: delete_place_from_owner_place_list_def)

lemma sqlalchemy_delete_place_from_owner_place_list_body_error:
  "sqlalchemy_delete_place_from_owner_place_list_body pid uid now s = (Inl e, s') \<Longrightarrow>
   e = ValueError NotFound \<and> s' = s"
  by (auto simp: sqlalchemy_delete_place_from_owner_place_list_body_def Let_def
      split: option.splits if_splits)

lemma sqlalchemy_delete_place_from_owner_place_list_returns:
  "fst (sqlalchemy_delete_place_from_owner_place_list pid uid now s) = Inr ()"
proof (cases "sqlalchemy_delete_place_from_owner_place_list_body pid uid now s")
  case (Pair r s')
  show ?thesis
  proof (cases r)
    case (Inl e)
    with Pair sqlalchemy_delete_place_from_owner_place_list_body_error [of pid uid now s e s']
    show ?thesis by (simp add: sqlalchemy_delete_place_from_owner_place_list_def)
  next
    case (Inr u)
    with Pair show ?thesis by (simp add: sqlalchemy_delete_place_from_owner_place_list_def)
  qed
qed

text \<open>
  C6. The claim: an operation whose step fails raises the error to its caller. On the
  code: \<open>delete_place_from_owner_place_list\<close> of \<open>SQLAlchemyFacadeRelationManager\<close>,
  called for a user that does not exist, returns normally.
\<close>

theorem sqlalchemy_delete_place_from_owner_place_list_absent_user:
  "sqlalchemy_delete_place_from_owner_place_list ''p1'' ''u9'' 1
     \<lparr>user_repo = [], place_repo = [], amenity_repo = [], review_repo = []\<rparr>
   = (Inr (), \<lparr>user_repo = [], place_repo = [], amenity_repo = [], review_repo = []\<rparr>)"
  by (simp add: sqlalchemy_delete_place_from_owner_place_list_def
      sqlalchemy_delete_place_from_owner_place_list_body_def repo_get_def)

section \<open>Cascading deletion of a place\<close>

lemma repo_delete_eq: "repo_delete k st = AList.delete k st"
  by (simp add: repo_delete_def)

lemma repo_get_repo_delete:
  "repo_get k (repo_delete k' st) = (if k = k' then None else repo_get k st)"
  by (simp add: repo_get_def repo_delete_eq delete_conv')

lemma repo_get_fold_repo_delete:
  "repo_get k (fold repo_delete ks st) = (if k \<in> set ks then None else repo_get k st)"
  by (induction ks arbitrary: st) (auto simp: repo_get_repo_delete)

lemma set_repo_delete: "set (repo_delete k st) = {e \<in> set st. fst e \<noteq> k}"
  by (auto simp: repo_delete_eq AList.delete_eq)

lemma set_fold_repo_delete: "set (fold repo_delete ks st) = {e \<in> set st. fst e \<notin> set ks}"
  by (induction ks arbitrary: st) (auto simp: set_repo_delete)

text \<open>
  With at least one review id in \<open>place.reviews\<close>, and the place in the list of its
  owner, the cascade of \<open>FacadeRelationManager\<close> runs to its end.
\<close>

lemma delete_place_and_associated_instances_succeeds:
  assumes "repo_get pid (place_repo s) = Some plc"
    and "repo_get (owner_id plc) (user_repo s) = Some usr"
    and "pid \<in> set (places usr)"
    and "reviews plc \<noteq> []"
  shows "\<exists>s'. delete_place_and_associated_instances pid now s = (Inr (), s') \<and>
           repo_get pid (place_repo s') = None \<and>
           places_ids_list (owner_id plc) s' = remove1 pid (places usr) \<and>
           review_repo s' = fold repo_delete (reviews plc) (review_repo s) \<and>
           place_repo s' = repo_delete pid (place_repo s)"
  using assms
  by (simp add: delete_place_and_associated_instances_def Let_def repo_get_repo_delete
      places_ids_list_def repo_get_repo_update repo_get_map_entry)

text \<open>
  With no review id in \<open>place.reviews\<close> it raises after the owner has been saved
  without the place: the place stays in storage.
\<close>

lemma delete_place_and_associated_instances_no_reviews:
  assumes "repo_get pid (place_repo s) = Some plc"
    and "repo_get (owner_id plc) (user_repo s) = Some usr"
    and "pid \<in> set (places usr)"
    and "reviews plc = []"
  shows "\<exists>s'. delete_place_and_associated_instances pid now s = (Inl (ValueError NotFound), s') \<and>
           repo_get pid (place_repo s') = Some plc \<and>
           places_ids_list (owner_id plc) s' = remove1 pid (places usr)"
  using assms
  by (simp add: delete_place_and_associated_instances_def Let_def
      places_ids_list_def repo_get_repo_update repo_get_map_entry)

text \<open>The cascade of \<open>SQLAlchemyFacadeRelationManager\<close> does not ask for a review.\<close>

lemma sqlalchemy_delete_place_and_associated_instances_succeeds:
  assumes "repo_get pid (place_repo s) = Some plc"
    and "repo_get (owner_id plc) (user_repo s) = Some usr"
    and "pid \<in> set (places usr)"
  shows "\<exists>s'. sqlalchemy_delete_place_and_associated_instances pid now s = (Inr (), s') \<and>
           repo_get pid (place_repo s') = None \<and>
           places_ids_list (owner_id plc) s' = filter (\<lambda>x. x \<noteq> pid) (places usr) \<and>
           review_repo s' = fold repo_delete (reviews plc) (review_repo s)"
  using assms
  by (simp add: sqlalchemy_delete_place_and_associated_instances_def Let_def
      repo_get_repo_delete places_ids_list_def repo_get_map_entry commit_def)

text \<open>
  What is left of the reviews: no review listed by the place, and no review that refers
  to the place when every such review is listed by it.
\<close>

lemma fold_repo_delete_listed:
  "rid \<in> set rids \<Longrightarrow> repo_get rid (fold repo_delete rids st) = None"
  by (simp add: repo_get_fold_repo_delete)

lemma fold_repo_delete_no_reference:
  assumes "\<forall>e \<in> set st. place_id (snd e) = pid \<longrightarrow> fst e \<in> set rids"
  shows "\<forall>r \<in> set (repo_get_all (fold repo_delete rids st)). place_id r \<noteq> pid"
  using assms by (auto simp: repo_get_all_def set_fold_repo_delete)

text \<open>
  C1. The claim: for a stored place whose owner exists the cascade ends with the place
  absent from storage, also when the place has no review. On the code: for a place with
  an empty \<open>reviews\<close> list, listed by its owner, \<open>delete_place_and_associated_instances\<close>
  of \<open>FacadeRelationManager\<close> removes the place from the owner's list, saves the owner,
  raises \<open>ValueError\<close> and leaves the place in storage.
\<close>

theorem delete_place_without_reviews:
  "delete_place_and_associated_instances ''p1'' 1
     \<lparr>user_repo = [(''u1'', \<lparr>obj_id = ''u1'', created_at = 0, updated_at = 0,
           first_name = ''Ann'', last_name = ''A'', email = ''a@b.com'', password = ''h'',
           is_admin = False, places = [''p1'']\<rparr>)],
      place_repo = [(''p1'', \<lparr>obj_id = ''p1'', created_at = 0, updated_at = 0, title = ''Loft'',
           description = ''x'', price = PyFloat 100, latitude = PyFloat 10,
           longitude = PyFloat 10, owner_first_name = ''Ann'', owner_id = ''u1'',
           reviews = [], amenities = []\<rparr>)],
      amenity_repo = [], review_repo = []\<rparr>
   = (Inl (ValueError NotFound),
     \<lparr>user_repo = [(''u1'', \<lparr>obj_id = ''u1'', created_at = 0, updated_at = 1,
           first_name = ''Ann'', last_name = ''A'', email = ''a@b.com'', password = ''h'',
           is_admin = False, places = []\<rparr>)],
      place_repo = [(''p1'', \<lparr>obj_id = ''p1'', created_at = 0, updated_at = 0, title = ''Loft'',
           description = ''x'', price = PyFloat 100, latitude = PyFloat 10,
           longitude = PyFloat 10, owner_first_name = ''Ann'', owner_id = ''u1'',
           reviews = [], amenities = []\<rparr>)],
      amenity_repo = [], review_repo = []\<rparr>)"
  by (simp add: delete_place_and_associated_instances_def Let_def repo_get_def
      repo_update_def base_update_def save_def)

section \<open>Cascading deletion of a user\<close>

text \<open>
  The iteration runs over the list that the cascade shrinks. For an owner of two places,
  each with a review, the first step deletes the first place and leaves a list of one
  element; the index of the second step is then past its end, and the second place is
  never visited.
\<close>

lemma delete_user_skips_second_place:
  assumes usr: "repo_get uid (user_repo s) = Some usr" "places usr = [p1, p2]"
    and p1: "repo_get p1 (place_repo s) = Some plc1" "owner_id plc1 = uid" "reviews plc1 \<noteq> []"
    and p2: "repo_get p2 (place_repo s) = Some plc2" "p1 \<noteq> p2"
  shows "\<exists>s'. delete_user_and_associated_instances uid now s = (Inr (), s') \<and>
           repo_get uid (user_repo s') = None \<and>
           repo_get p2 (place_repo s') = Some plc2"
proof -
  from usr have l0: "places_ids_list uid s = [p1, p2]"
    by (simp add: places_ids_list_def)
  from delete_place_and_associated_instances_succeeds [of p1 s plc1 usr now] usr p1
  obtain s1 where step: "delete_place_and_associated_instances p1 now s = (Inr (), s1)"
    and l1: "places_ids_list uid s1 = [p2]"
    and pl1: "place_repo s1 = repo_delete p1 (place_repo s)"
    by auto
  have "delete_places_loop uid (Suc 0) now s1 = (Inr (), s1)"
    using l1 by (subst delete_places_loop.simps) simp
  then have loop: "delete_places_loop uid 0 now s = (Inr (), s1)"
    using l0 step by (subst delete_places_loop.simps) simp
  let ?s' = "s1\<lparr>user_repo := repo_delete uid (user_repo s1)\<rparr>"
  from usr loop have "delete_user_and_associated_instances uid now s = (Inr (), ?s')"
    by (simp add: delete_user_and_associated_instances_def)
  moreover have "repo_get uid (user_repo ?s') = None"
    by (simp add: repo_get_repo_delete)
  moreover from pl1 p2 have "repo_get p2 (place_repo ?s') = Some plc2"
    by (simp add: repo_get_repo_delete)
  ultimately show ?thesis by blast
qed

text \<open>
  C2. The claim: \<open>delete_user_and_associated_instances\<close> runs the cascade for every
  place id of the user's list, and no place owned by the user is left. On the code: for
  a user who owns the places \<open>p1\<close> and \<open>p2\<close>, each with one review,
  \<open>FacadeRelationManager\<close> deletes \<open>p1\<close>, its review and the user, and returns
  normally; the place \<open>p2\<close>, whose \<open>owner_id\<close> is the user's id, and its review
  stay in storage.
\<close>

theorem delete_user_with_two_places:
  "delete_user_and_associated_instances ''u1'' 1
     \<lparr>user_repo = [(''u1'', \<lparr>obj_id = ''u1'', created_at = 0, updated_at = 0,
           first_name = ''Ann'', last_name = ''A'', email = ''a@b.com'', password = ''h'',
           is_admin = False, places = [''p1'', ''p2'']\<rparr>)],
      place_repo =
        [(''p1'', \<lparr>obj_id = ''p1'', created_at = 0, updated_at = 0, title = ''Loft'',
           description = ''x'', price = PyFloat 100, latitude = PyFloat 10,
           longitude = PyFloat 10, owner_first_name = ''Ann'', owner_id = ''u1'',
           reviews = [''r1''], amenities = []\<rparr>),
         (''p2'', \<lparr>obj_id = ''p2'', created_at = 0, updated_at = 0, title = ''Barn'',
           description = ''y'', price = PyFloat 50, latitude = PyFloat 20,
           longitude = PyFloat 20, owner_first_name = ''Ann'', owner_id = ''u1'',
           reviews = [''r2''], amenities = []\<rparr>)],
      amenity_repo = [],
      review_repo =
        [(''r1'', \<lparr>obj_id = ''r1'', created_at = 0, updated_at = 0, review_text = ''fine'',
           rating = 4, place_id = ''p1'', place_name = ''Loft'', user_id = ''u1'',
           user_first_name = ''Ann''\<rparr>),
         (''r2'', \<lparr>obj_id = ''r2'', created_at = 0, updated_at = 0, review_text = ''good'',
           rating = 5, place_id = ''p2'', place_name = ''Barn'', user_id = ''u1'',
           user_first_name = ''Ann''\<rparr>)]\<rparr>
   = (Inr (),
     \<lparr>user_repo = [],
      place_repo =
        [(''p2'', \<lparr>obj_id = ''p2'', created_at = 0, updated_at = 0, title = ''Barn'',
           description = ''y'', price = PyFloat 50, latitude = PyFloat 20,
           longitude = PyFloat 20, owner_first_name = ''Ann'', owner_id = ''u1'',
           reviews = [''r2''], amenities = []\<rparr>)],
      amenity_repo = [],
      review_repo =
        [(''r2'', \<lparr>obj_id = ''r2'', created_at = 0, updated_at = 0, review_text = ''good'',
           rating = 5, place_id = ''p2'', place_name = ''Barn'', user_id = ''u1'',
           user_first_name = ''Ann''\<rparr>)]\<rparr>)"
  by (simp add: delete_user_and_associated_instances_def delete_places_loop.simps
      places_ids_list_def delete_place_and_associated_instances_def Let_def repo_get_def
      repo_update_def repo_delete_def base_update_def save_def AList.delete_eq)

text \<open>
  On the same store \<open>SQLAlchemyFacadeRelationManager\<close>, whose cascade assigns a new
  list instead of shrinking the iterated one, deletes both places.
\<close>

lemma sqlalchemy_delete_user_with_two_places:
  "sqlalchemy_delete_user_and_associated_instances ''u1'' 1
     \<lparr>user_repo = [(''u1'', \<lparr>obj_id = ''u1'', created_at = 0, updated_at = 0,
           first_name = ''Ann'', last_name = ''A'', email = ''a@b.com'', password = ''h'',
           is_admin = False, places = [''p1'', ''p2'']\<rparr>)],
      place_repo =
        [(''p1'', \<lparr>obj_id = ''p1'', created_at = 0, updated_at = 0, title = ''Loft'',
           description = ''x'', price = PyFloat 100, latitude = PyFloat 10,
           longitude = PyFloat 10, owner_first_name = ''Ann'', owner_id = ''u1'',
           reviews = [''r1''], amenities = []\<rparr>),
         (''p2'', \<lparr>obj_id = ''p2'', created_at = 0, updated_at = 0, title = ''Barn'',
           description = ''y'', price = PyFloat 50, latitude = PyFloat 20,
           longitude = PyFloat 20, owner_first_name = ''Ann'', owner_id = ''u1'',
           reviews = [''r2''], amenities = []\<rparr>)],
      amenity_repo = [],
      review_repo =
        [(''r1'', \<lparr>obj_id = ''r1'', created_at = 0, updated_at = 0, review_text = ''fine'',
           rating = 4, place_id = ''p1'', place_name = ''Loft'', user_id = ''u1'',
           user_first_name = ''Ann''\<rparr>),
         (''r2'', \<lparr>obj_id = ''r2'', created_at = 0, updated_at = 0, review_text = ''good'',
           rating = 5, place_id = ''p2'', place_name = ''Barn'', user_id = ''u1'',
           user_first_name = ''Ann''\<rparr>)]\<rparr>
   = (Inr (), \<lparr>user_repo = [], place_repo = [], amenity_repo = [], review_repo = []\<rparr>)"
  by (simp add: sqlalchemy_delete_user_and_associated_instances_def
      sqlalchemy_delete_place_and_associated_instances_def Let_def repo_get_def
      repo_delete_def commit_def AList.delete_eq)

section \<open>Creating a place for a user\<close>












section \<open>Reviews of a user\<close>

lemma get_all_reviews_from_user_filter:
  "get_all_reviews_from_user uid s = Inr rs \<Longrightarrow>
   rs = filter (\<lambda>r. sublist uid (user_id r)) (repo_get_all (review_repo s))"
  by (auto simp: get_all_reviews_from_user_def Let_def split: if_splits)

lemma get_all_reviews_from_user_includes:
  assumes "repo_get uid (user_repo s) = Some u"
    and "r \<in> set (repo_get_all (review_repo s))"
    and "sublist uid (user_id r)"
  shows "\<exists>rs. get_all_reviews_from_user uid s = Inr rs \<and> r \<in> set rs"
proof -
  let ?sel = "filter (\<lambda>r. sublist uid (user_id r)) (repo_get_all (review_repo s))"
  from assms(2,3) have in_sel: "r \<in> set ?sel" by simp
  from assms(2,3) have "?sel \<noteq> []" by (auto simp: filter_empty_conv)
  moreover from assms(2) have "repo_get_all (review_repo s) \<noteq> []" by auto
  ultimately have "get_all_reviews_from_user uid s = Inr ?sel"
    using assms(1) by (simp add: get_all_reviews_from_user_def Let_def)
  with in_sel show ?thesis by blast
qed

text \<open>
  C10. For every store and every id, \<open>get_all_reviews_from_user\<close> raises when the user
  is absent or no stored review has a \<open>user_id\<close> that contains the id as a substring,
  and returns otherwise exactly the stored reviews whose \<open>user_id\<close> contains the id as
  a substring, in the order of storage. So the selection is not by equality: there are a
  store, two stored users, the id of the first a strict substring (and no prefix) of the
  id of the second, a stored review written by the second user and one written by a
  third, such that the reviews returned for the first user are the former alone.
\<close>

theorem get_all_reviews_from_user_substring:
  "get_all_reviews_from_user uid s =
     (if repo_get uid (user_repo s) = None \<or>
         filter (\<lambda>r. sublist uid (user_id r)) (repo_get_all (review_repo s)) = []
      then Inl (ValueError NotFound)
      else Inr (filter (\<lambda>r. sublist uid (user_id r)) (repo_get_all (review_repo s)))) \<and>
   (\<exists>s0 u1 u2 r r3.
      repo_get (obj_id u1) (user_repo s0) = Some u1 \<and>
      repo_get (obj_id u2) (user_repo s0) = Some u2 \<and>
      strict_sublist (obj_id u1) (obj_id u2) \<and> \<not> prefix (obj_id u1) (obj_id u2) \<and>
      repo_get_all (review_repo s0) = [r, r3] \<and>
      user_id r = obj_id u2 \<and> r3 \<noteq> r \<and>
      get_all_reviews_from_user (obj_id u1) s0 = Inr [r])"
proof (rule conjI)
  show "get_all_reviews_from_user uid s =
     (if repo_get uid (user_repo s) = None \<or>
         filter (\<lambda>r. sublist uid (user_id r)) (repo_get_all (review_repo s)) = []
      then Inl (ValueError NotFound)
      else Inr (filter (\<lambda>r. sublist uid (user_id r)) (repo_get_all (review_repo s))))"
    by (auto simp: get_all_reviews_from_user_def Let_def)
next
  let ?u1 = "\<lparr>obj_id = ''u1'', created_at = 0, updated_at = 0, first_name = ''Ann'',
              last_name = ''A'', email = ''a@b.com'', password = ''h'', is_admin = False,
              places = []\<rparr>"
  let ?u2 = "\<lparr>obj_id = ''xu1y'', created_at = 0, updated_at = 0, first_name = ''Bob'',
              last_name = ''B'', email = ''b@b.com'', password = ''h'', is_admin = False,
              places = []\<rparr>"
  let ?u3 = "\<lparr>obj_id = ''v3'', created_at = 0, updated_at = 0, first_name = ''Cy'',
              last_name = ''C'', email = ''c@b.com'', password = ''h'', is_admin = False,
              places = []\<rparr>"
  let ?r = "\<lparr>obj_id = ''r1'', created_at = 0, updated_at = 0, review_text = ''fine'',
             rating = 4, place_id = ''p1'', place_name = ''Loft'', user_id = ''xu1y'',
             user_first_name = ''Bob''\<rparr>"
  let ?r3 = "\<lparr>obj_id = ''r3'', created_at = 0, updated_at = 0, review_text = ''good'',
             rating = 5, place_id = ''p1'', place_name = ''Loft'', user_id = ''v3'',
             user_first_name = ''Cy''\<rparr>"
  let ?s = "\<lparr>user_repo = [(''u1'', ?u1), (''xu1y'', ?u2), (''v3'', ?u3)], place_repo = [],
             amenity_repo = [], review_repo = [(''r1'', ?r), (''r3'', ?r3)]\<rparr>"
  have sub: "sublist ''u1'' ''xu1y''" "\<not> sublist ''u1'' ''v3''"
    by (simp_all add: sublist_code)
  have "get_all_reviews_from_user (obj_id ?u1) ?s = Inr [?r]"
    using sub by (simp add: get_all_reviews_from_user_def Let_def repo_get_def repo_get_all_def)
  moreover have "strict_sublist (obj_id ?u1) (obj_id ?u2)"
    using sub by (simp add: strict_sublist_def)
  moreover have "\<not> prefix (obj_id ?u1) (obj_id ?u2)"
    by simp
  moreover have "repo_get (obj_id ?u1) (user_repo ?s) = Some ?u1"
    "repo_get (obj_id ?u2) (user_repo ?s) = Some ?u2"
    "repo_get_all (review_repo ?s) = [?r, ?r3]" "user_id ?r = obj_id ?u2" "?r3 \<noteq> ?r"
    by (simp_all add: repo_get_def repo_get_all_def)
  ultimately show "\<exists>s0 u1 u2 r r3.
      repo_get (obj_id u1) (user_repo s0) = Some u1 \<and>
      repo_get (obj_id u2) (user_repo s0) = Some u2 \<and>
      strict_sublist (obj_id u1) (obj_id u2) \<and> \<not> prefix (obj_id u1) (obj_id u2) \<and>
      repo_get_all (review_repo s0) = [r, r3] \<and>
      user_id r = obj_id u2 \<and> r3 \<noteq> r \<and>
      get_all_reviews_from_user (obj_id u1) s0 = Inr [r]"
    by (intro exI [of _ ?s] exI [of _ ?u1] exI [of _ ?u2] exI [of _ ?r] exI [of _ ?r3]) simp
qed

section \<open>Round trip of an exported record\<close>

lemma and_then_Inr: "and_then r f = Inr y \<longleftrightarrow> (\<exists>v. r = Inr v \<and> f v = Inr y)"
  by (cases r) (simp_all add: and_then_def)

lemma getattr_Inr: "getattr self k = Inr v \<longleftrightarrow> attrs self k = Some v"
  by (simp add: getattr_def split: option.splits)

lemma attr_isoformat_Inr:
  "attr_isoformat isoformat self k = Inr v \<longleftrightarrow>
     (\<exists>t. attrs self k = Some (Datetime t) \<and> v = Str (isoformat t))"
proof (cases "attrs self k")
  case None
  then show ?thesis by (simp add: attr_isoformat_def and_then_def getattr_def)
next
  case (Some w)
  then show ?thesis
    by (cases w) (auto simp: attr_isoformat_def and_then_def getattr_def)
qed

text \<open>
  The contract of the library: \<open>fromisoformat\<close> reads back what \<open>isoformat\<close> wrote.
  Under it, for each class, \<open>dict_to_obj\<close> builds from an exported record an object
  of the class whose export is that record; for a place, provided neither list of the
  exported place is \<open>None\<close>.
\<close>

lemma user_round_trip:
  assumes iso: "\<And>t. fromisoformat (isoformat t) = Some t"
    and exp: "user_to_dict isoformat self = Inr d"
  shows "\<exists>obj. dict_to_obj fromisoformat d = Inr obj \<and> model obj = User \<and>
           user_to_dict isoformat obj = Inr d"
proof -
  from exp obtain v_id v_first_name v_last_name v_email v_password v_is_admin v_places c u
    where d: "d = [''type'' \<mapsto> Str ''user'', ''id'' \<mapsto> v_id,
          ''first_name'' \<mapsto> v_first_name, ''last_name'' \<mapsto> v_last_name,
          ''email'' \<mapsto> v_email, ''password'' \<mapsto> v_password,
          ''is_admin'' \<mapsto> v_is_admin, ''places'' \<mapsto> v_places,
          ''created_at'' \<mapsto> Str (isoformat c), ''updated_at'' \<mapsto> Str (isoformat u)]"
    by (auto simp: user_to_dict_def and_then_Inr getattr_Inr attr_isoformat_Inr)
  show ?thesis
    unfolding d
    by (simp add: dict_to_obj_def parse_timestamp_def iso and_then_def getitem_def Let_def
        user_to_dict_def getattr_def attr_isoformat_def)
qed

lemma place_round_trip:
  assumes iso: "\<And>t. fromisoformat (isoformat t) = Some t"
    and exp: "place_to_dict isoformat self = Inr d"
    and lists: "attrs self ''reviews'' \<noteq> Some NoneVal" "attrs self ''amenities'' \<noteq> Some NoneVal"
  shows "\<exists>obj. dict_to_obj fromisoformat d = Inr obj \<and> model obj = Place \<and>
           place_to_dict isoformat obj = Inr d"
proof -
  from exp obtain v_id v_title v_description v_price v_latitude v_longitude
      v_owner_first_name v_owner_id v_reviews v_amenities c u where
    a: "attrs self ''reviews'' = Some v_reviews" "attrs self ''amenities'' = Some v_amenities"
    and d: "d = [''type'' \<mapsto> Str ''place'', ''id'' \<mapsto> v_id, ''title'' \<mapsto> v_title,
          ''description'' \<mapsto> v_description, ''price'' \<mapsto> v_price,
          ''latitude'' \<mapsto> v_latitude, ''longitude'' \<mapsto> v_longitude,
          ''owner_first_name'' \<mapsto> v_owner_first_name, ''owner_id'' \<mapsto> v_owner_id,
          ''reviews'' \<mapsto> v_reviews, ''amenities'' \<mapsto> v_amenities,
          ''created_at'' \<mapsto> Str (isoformat c), ''updated_at'' \<mapsto> Str (isoformat u)]"
    by (auto simp: place_to_dict_def and_then_Inr getattr_Inr attr_isoformat_Inr)
  from a lists have nn: "v_reviews \<noteq> NoneVal" "v_amenities \<noteq> NoneVal" by auto
  show ?thesis
    unfolding d using nn
    by (simp add: dict_to_obj_def parse_timestamp_def iso and_then_def getitem_def Let_def
        place_to_dict_def getattr_def attr_isoformat_def if_not_None_else_empty_def)
qed

lemma review_round_trip:
  assumes iso: "\<And>t. fromisoformat (isoformat t) = Some t"
    and exp: "review_to_dict isoformat self = Inr d"
  shows "\<exists>obj. dict_to_obj fromisoformat d = Inr obj \<and> model obj = Review \<and>
           review_to_dict isoformat obj = Inr d"
proof -
  from exp obtain v_id v_text v_rating v_place_id v_place_name v_user_id v_user_first_name c u
    where d: "d = [''type'' \<mapsto> Str ''review'', ''id'' \<mapsto> v_id, ''text'' \<mapsto> v_text,
          ''rating'' \<mapsto> v_rating, ''place_id'' \<mapsto> v_place_id,
          ''place_name'' \<mapsto> v_place_name, ''user_id'' \<mapsto> v_user_id,
          ''user_first_name'' \<mapsto> v_user_first_name,
          ''created_at'' \<mapsto> Str (isoformat c), ''updated_at'' \<mapsto> Str (isoformat u)]"
    by (auto simp: review_to_dict_def and_then_Inr getattr_Inr attr_isoformat_Inr)
  show ?thesis
    unfolding d
    by (simp add: dict_to_obj_def parse_timestamp_def iso and_then_def getitem_def Let_def
        review_to_dict_def getattr_def attr_isoformat_def)
qed

lemma amenity_round_trip:
  assumes iso: "\<And>t. fromisoformat (isoformat t) = Some t"
    and exp: "amenity_to_dict isoformat self = Inr d"
  shows "\<exists>obj. dict_to_obj fromisoformat d = Inr obj \<and> model obj = Amenity \<and>
           amenity_to_dict isoformat obj = Inr d"
proof -
  from exp obtain v_id v_name c u where
    d: "d = [''type'' \<mapsto> Str ''amenity'', ''id'' \<mapsto> v_id, ''name'' \<mapsto> v_name,
          ''created_at'' \<mapsto> Str (isoformat c), ''updated_at'' \<mapsto> Str (isoformat u)]"
    by (auto simp: amenity_to_dict_def and_then_Inr getattr_Inr attr_isoformat_Inr)
  show ?thesis
    unfolding d
    by (simp add: dict_to_obj_def parse_timestamp_def iso and_then_def getitem_def Let_def
        amenity_to_dict_def getattr_def attr_isoformat_def)
qed

text \<open>
  C7. The claim as amended: for an entity of any of the four types, other than a place
  whose \<open>reviews\<close> or \<open>amenities\<close> is \<open>None\<close>, \<open>dict_to_obj\<close> applied to the
  record that \<open>to_dict\<close> exports (timestamps as ISO strings) yields an object, and
  exporting that object gives the same record, key by key, timestamps included;
  \<open>fromisoformat\<close> being the inverse of \<open>isoformat\<close>, as the library documents.
  (\<open>dict_to_obj\<close> also overwrites the two timestamps in the dictionary it is given;
  the comparison is with the record as it was exported.)
\<close>

theorem to_dict_round_trip:
  assumes "\<And>t. fromisoformat (isoformat t) = Some t"
    and "to_dict isoformat self = Inr d"
    and "model self = Place \<Longrightarrow>
           attrs self ''reviews'' \<noteq> Some NoneVal \<and> attrs self ''amenities'' \<noteq> Some NoneVal"
  shows "\<exists>obj. dict_to_obj fromisoformat d = Inr obj \<and> to_dict isoformat obj = Inr d"
proof (cases "model self")
  case User
  with assms(2) have "user_to_dict isoformat self = Inr d" by (simp add: to_dict_def)
  from user_round_trip [OF assms(1) this] show ?thesis by (auto simp: to_dict_def)
next
  case Place
  with assms(2) have "place_to_dict isoformat self = Inr d" by (simp add: to_dict_def)
  moreover from Place assms(3) have "attrs self ''reviews'' \<noteq> Some NoneVal"
    "attrs self ''amenities'' \<noteq> Some NoneVal" by simp_all
  ultimately show ?thesis
    using place_round_trip [OF assms(1), of self d] by (auto simp: to_dict_def)
next
  case Review
  with assms(2) have "review_to_dict isoformat self = Inr d" by (simp add: to_dict_def)
  from review_round_trip [OF assms(1) this] show ?thesis by (auto simp: to_dict_def)
next
  case Amenity
  with assms(2) have "amenity_to_dict isoformat self = Inr d" by (simp add: to_dict_def)
  from amenity_round_trip [OF assms(1) this] show ?thesis by (auto simp: to_dict_def)
qed

theorem to_dict_round_trip_witness:
  "to_dict (\<lambda>t. replicate t CHR ''I'')
     \<lparr>model = Place,
      attrs = [''id'' \<mapsto> Str ''p1'', ''created_at'' \<mapsto> Datetime 3,
               ''updated_at'' \<mapsto> Datetime 5, ''title'' \<mapsto> Str ''Loft'',
               ''description'' \<mapsto> Str ''x'', ''price'' \<mapsto> Num (PyFloat 100),
               ''latitude'' \<mapsto> Num (PyFloat 10), ''longitude'' \<mapsto> Num (PyFloat 10),
               ''owner_first_name'' \<mapsto> Str ''Ann'', ''owner_id'' \<mapsto> Str ''u1'',
               ''reviews'' \<mapsto> StrList [''r1''], ''amenities'' \<mapsto> StrList []]\<rparr>
   = Inr [''type'' \<mapsto> Str ''place'', ''id'' \<mapsto> Str ''p1'', ''title'' \<mapsto> Str ''Loft'',
          ''description'' \<mapsto> Str ''x'', ''price'' \<mapsto> Num (PyFloat 100),
          ''latitude'' \<mapsto> Num (PyFloat 10), ''longitude'' \<mapsto> Num (PyFloat 10),
          ''owner_first_name'' \<mapsto> Str ''Ann'', ''owner_id'' \<mapsto> Str ''u1'',
          ''reviews'' \<mapsto> StrList [''r1''], ''amenities'' \<mapsto> StrList [],
          ''created_at'' \<mapsto> Str ''III'', ''updated_at'' \<mapsto> Str ''IIIII''] \<and>
   (\<exists>obj. dict_to_obj (\<lambda>v. Some (length v))
       [''type'' \<mapsto> Str ''place'', ''id'' \<mapsto> Str ''p1'', ''title'' \<mapsto> Str ''Loft'',
        ''description'' \<mapsto> Str ''x'', ''price'' \<mapsto> Num (PyFloat 100),
        ''latitude'' \<mapsto> Num (PyFloat 10), ''longitude'' \<mapsto> Num (PyFloat 10),
        ''owner_first_name'' \<mapsto> Str ''Ann'', ''owner_id'' \<mapsto> Str ''u1'',
        ''reviews'' \<mapsto> StrList [''r1''], ''amenities'' \<mapsto> StrList [],
        ''created_at'' \<mapsto> Str ''III'', ''updated_at'' \<mapsto> Str ''IIIII''] = Inr obj \<and>
      to_dict (\<lambda>t. replicate t CHR ''I'') obj =
      Inr [''type'' \<mapsto> Str ''place'', ''id'' \<mapsto> Str ''p1'', ''title'' \<mapsto> Str ''Loft'',
           ''description'' \<mapsto> Str ''x'', ''price'' \<mapsto> Num (PyFloat 100),
           ''latitude'' \<mapsto> Num (PyFloat 10), ''longitude'' \<mapsto> Num (PyFloat 10),
           ''owner_first_name'' \<mapsto> Str ''Ann'', ''owner_id'' \<mapsto> Str ''u1'',
           ''reviews'' \<mapsto> StrList [''r1''], ''amenities'' \<mapsto> StrList [],
           ''created_at'' \<mapsto> Str ''III'', ''updated_at'' \<mapsto> Str ''IIIII''])"
proof -
  let ?iso = "\<lambda>t. replicate t CHR ''I''"
  let ?from = "\<lambda>v::string. Some (length v)"
  let ?x = "\<lparr>model = Place,
      attrs = [''id'' \<mapsto> Str ''p1'', ''created_at'' \<mapsto> Datetime 3,
               ''updated_at'' \<mapsto> Datetime 5, ''title'' \<mapsto> Str ''Loft'',
               ''description'' \<mapsto> Str ''x'', ''price'' \<mapsto> Num (PyFloat 100),
               ''latitude'' \<mapsto> Num (PyFloat 10), ''longitude'' \<mapsto> Num (PyFloat 10),
               ''owner_first_name'' \<mapsto> Str ''Ann'', ''owner_id'' \<mapsto> Str ''u1'',
               ''reviews'' \<mapsto> StrList [''r1''], ''amenities'' \<mapsto> StrList []]\<rparr>"
  let ?d = "[''type'' \<mapsto> Str ''place'', ''id'' \<mapsto> Str ''p1'', ''title'' \<mapsto> Str ''Loft'',
          ''description'' \<mapsto> Str ''x'', ''price'' \<mapsto> Num (PyFloat 100),
          ''latitude'' \<mapsto> Num (PyFloat 10), ''longitude'' \<mapsto> Num (PyFloat 10),
          ''owner_first_name'' \<mapsto> Str ''Ann'', ''owner_id'' \<mapsto> Str ''u1'',
          ''reviews'' \<mapsto> StrList [''r1''], ''amenities'' \<mapsto> StrList [],
          ''created_at'' \<mapsto> Str ''III'', ''updated_at'' \<mapsto> Str ''IIIII'']"
  have contract: "\<And>t. ?from (?iso t) = Some t" by simp
  have exported: "to_dict ?iso ?x = Inr ?d"
    by (simp add: to_dict_def place_to_dict_def and_then_def getattr_def attr_isoformat_def
        numeral_3_eq_3 eval_nat_numeral)
  have lists: "model ?x = Place \<Longrightarrow>
      attrs ?x ''reviews'' \<noteq> Some NoneVal \<and> attrs ?x ''amenities'' \<noteq> Some NoneVal"
    by simp
  from to_dict_round_trip [of ?from ?iso ?x ?d, OF contract exported lists] exported
  show ?thesis by simp
qed

text \<open>
  The claim as stated fails for a place whose \<open>reviews\<close> is \<open>None\<close> (the state that
  an update with \<open>"reviews": null\<close> leaves): the record is exported with \<open>None\<close>,
  \<open>Place.__init__\<close> replaces \<open>None\<close> by the empty list, and the object rebuilt
  exports the empty list.
\<close>

theorem to_dict_round_trip_place_without_list:
  "to_dict (\<lambda>t. replicate t CHR ''I'')
     \<lparr>model = Place,
      attrs = [''id'' \<mapsto> Str ''p1'', ''created_at'' \<mapsto> Datetime 3,
               ''updated_at'' \<mapsto> Datetime 5, ''title'' \<mapsto> Str ''Loft'',
               ''description'' \<mapsto> Str ''x'', ''price'' \<mapsto> Num (PyFloat 100),
               ''latitude'' \<mapsto> Num (PyFloat 10), ''longitude'' \<mapsto> Num (PyFloat 10),
               ''owner_first_name'' \<mapsto> Str ''Ann'', ''owner_id'' \<mapsto> Str ''u1'',
               ''reviews'' \<mapsto> NoneVal, ''amenities'' \<mapsto> StrList []]\<rparr>
   = Inr [''type'' \<mapsto> Str ''place'', ''id'' \<mapsto> Str ''p1'', ''title'' \<mapsto> Str ''Loft'',
          ''description'' \<mapsto> Str ''x'', ''price'' \<mapsto> Num (PyFloat 100),
          ''latitude'' \<mapsto> Num (PyFloat 10), ''longitude'' \<mapsto> Num (PyFloat 10),
          ''owner_first_name'' \<mapsto> Str ''Ann'', ''owner_id'' \<mapsto> Str ''u1'',
          ''reviews'' \<mapsto> NoneVal, ''amenities'' \<mapsto> StrList [],
          ''created_at'' \<mapsto> Str ''III'', ''updated_at'' \<mapsto> Str ''IIIII''] \<and>
   dict_to_obj (\<lambda>v. Some (length v))
     [''type'' \<mapsto> Str ''place'', ''id'' \<mapsto> Str ''p1'', ''title'' \<mapsto> Str ''Loft'',
      ''description'' \<mapsto> Str ''x'', ''price'' \<mapsto> Num (PyFloat 100),
      ''latitude'' \<mapsto> Num (PyFloat 10), ''longitude'' \<mapsto> Num (PyFloat 10),
      ''owner_first_name'' \<mapsto> Str ''Ann'', ''owner_id'' \<mapsto> Str ''u1'',
      ''reviews'' \<mapsto> NoneVal, ''amenities'' \<mapsto> StrList [],
      ''created_at'' \<mapsto> Str ''III'', ''updated_at'' \<mapsto> Str ''IIIII'']
   = Inr \<lparr>model = Place,
      attrs = [''title'' \<mapsto> Str ''Loft'', ''description'' \<mapsto> Str ''x'',
               ''price'' \<mapsto> Num (PyFloat 100), ''latitude'' \<mapsto> Num (PyFloat 10),
               ''longitude'' \<mapsto> Num (PyFloat 10), ''owner_first_name'' \<mapsto> Str ''Ann'',
               ''owner_id'' \<mapsto> Str ''u1'', ''reviews'' \<mapsto> StrList [],
               ''amenities'' \<mapsto> StrList [], ''id'' \<mapsto> Str ''p1'',
               ''created_at'' \<mapsto> Datetime 3, ''updated_at'' \<mapsto> Datetime 5]\<rparr> \<and>
   to_dict (\<lambda>t. replicate t CHR ''I'')
     \<lparr>model = Place,
      attrs = [''title'' \<mapsto> Str ''Loft'', ''description'' \<mapsto> Str ''x'',
               ''price'' \<mapsto> Num (PyFloat 100), ''latitude'' \<mapsto> Num (PyFloat 10),
               ''longitude'' \<mapsto> Num (PyFloat 10), ''owner_first_name'' \<mapsto> Str ''Ann'',
               ''owner_id'' \<mapsto> Str ''u1'', ''reviews'' \<mapsto> StrList [],
               ''amenities'' \<mapsto> StrList [], ''id'' \<mapsto> Str ''p1'',
               ''created_at'' \<mapsto> Datetime 3, ''updated_at'' \<mapsto> Datetime 5]\<rparr>
   \<noteq> Inr [''type'' \<mapsto> Str ''place'', ''id'' \<mapsto> Str ''p1'', ''title'' \<mapsto> Str ''Loft'',
          ''description'' \<mapsto> Str ''x'', ''price'' \<mapsto> Num (PyFloat 100),
          ''latitude'' \<mapsto> Num (PyFloat 10), ''longitude'' \<mapsto> Num (PyFloat 10),
          ''owner_first_name'' \<mapsto> Str ''Ann'', ''owner_id'' \<mapsto> Str ''u1'',
          ''reviews'' \<mapsto> NoneVal, ''amenities'' \<mapsto> StrList [],
          ''created_at'' \<mapsto> Str ''III'', ''updated_at'' \<mapsto> Str ''IIIII'']"
proof (intro conjI)
  let ?iso = "\<lambda>t. replicate t CHR ''I''"
  let ?y = "\<lparr>model = Place,
      attrs = [''title'' \<mapsto> Str ''Loft'', ''description'' \<mapsto> Str ''x'',
               ''price'' \<mapsto> Num (PyFloat 100), ''latitude'' \<mapsto> Num (PyFloat 10),
               ''longitude'' \<mapsto> Num (PyFloat 10), ''owner_first_name'' \<mapsto> Str ''Ann'',
               ''owner_id'' \<mapsto> Str ''u1'', ''reviews'' \<mapsto> StrList [],
               ''amenities'' \<mapsto> StrList [], ''id'' \<mapsto> Str ''p1'',
               ''created_at'' \<mapsto> Datetime 3, ''updated_at'' \<mapsto> Datetime 5]\<rparr>"
  let ?d = "[''type'' \<mapsto> Str ''place'', ''id'' \<mapsto> Str ''p1'', ''title'' \<mapsto> Str ''Loft'',
          ''description'' \<mapsto> Str ''x'', ''price'' \<mapsto> Num (PyFloat 100),
          ''latitude'' \<mapsto> Num (PyFloat 10), ''longitude'' \<mapsto> Num (PyFloat 10),
          ''owner_first_name'' \<mapsto> Str ''Ann'', ''owner_id'' \<mapsto> Str ''u1'',
          ''reviews'' \<mapsto> NoneVal, ''amenities'' \<mapsto> StrList [],
          ''created_at'' \<mapsto> Str ''III'', ''updated_at'' \<mapsto> Str ''IIIII'']"
  show "to_dict ?iso
     \<lparr>model = Place,
      attrs = [''id'' \<mapsto> Str ''p1'', ''created_at'' \<mapsto> Datetime 3,
               ''updated_at'' \<mapsto> Datetime 5, ''title'' \<mapsto> Str ''Loft'',
               ''description'' \<mapsto> Str ''x'', ''price'' \<mapsto> Num (PyFloat 100),
               ''latitude'' \<mapsto> Num (PyFloat 10), ''longitude'' \<mapsto> Num (PyFloat 10),
               ''owner_first_name'' \<mapsto> Str ''Ann'', ''owner_id'' \<mapsto> Str ''u1'',
               ''reviews'' \<mapsto> NoneVal, ''amenities'' \<mapsto> StrList []]\<rparr> = Inr ?d"
    by (simp add: to_dict_def place_to_dict_def and_then_def getattr_def attr_isoformat_def
        numeral_3_eq_3 eval_nat_numeral)
  show "dict_to_obj (\<lambda>v. Some (length v)) ?d = Inr ?y"
    by (simp add: dict_to_obj_def parse_timestamp_def and_then_def getitem_def Let_def
        if_not_None_else_empty_def eval_nat_numeral)
  show "to_dict ?iso ?y \<noteq> Inr ?d"
  proof
    let ?d' = "[''type'' \<mapsto> Str ''place'', ''id'' \<mapsto> Str ''p1'', ''title'' \<mapsto> Str ''Loft'',
          ''description'' \<mapsto> Str ''x'', ''price'' \<mapsto> Num (PyFloat 100),
          ''latitude'' \<mapsto> Num (PyFloat 10), ''longitude'' \<mapsto> Num (PyFloat 10),
          ''owner_first_name'' \<mapsto> Str ''Ann'', ''owner_id'' \<mapsto> Str ''u1'',
          ''reviews'' \<mapsto> StrList [], ''amenities'' \<mapsto> StrList [],
          ''created_at'' \<mapsto> Str ''III'', ''updated_at'' \<mapsto> Str ''IIIII'']"
    assume eq: "to_dict ?iso ?y = Inr ?d"
    have "to_dict ?iso ?y = Inr ?d'"
      by (simp add: to_dict_def place_to_dict_def and_then_def getattr_def attr_isoformat_def
          numeral_3_eq_3 eval_nat_numeral)
    with eq have "(Inr ?d' :: error + obj_data) = Inr ?d" by (simp only:)
    then have "?d' = ?d" by (simp only: sum.inject)
    then have "?d' ''reviews'' = ?d ''reviews''" by (rule fun_cong)
    then show False by simp
  qed
qed

end
